theory Spec2Isabelle
  imports Main
begin

section \<open>Mobile-money payment workflow of SmartClause\<close>

text \<open>
  A shallow embedding of the payment code: the gateway client
  (\<^verbatim>\<open>mpesa_handler.py\<close>), the payment flow orchestrator
  (\<^verbatim>\<open>SmartClause_2.0/payment_flow.py\<close>) with the tables of
  \<^verbatim>\<open>SmartClause_2.0/database.py\<close> it reads and writes, and the session
  payment guard (\<^verbatim>\<open>payment_verification.py\<close>).

  Conventions. A Python \<^verbatim>\<open>str\<close> is a \<open>string\<close>; one \<open>char\<close> stands for
  one code point below 256. A raised exception is a value (\<open>Inl\<close> of a sum, or a
  constructor of the outcome type of an external call). What the network answers and
  what the clock reads are inputs of the functions. Timestamps and durations are
  integers counting microseconds, the resolution of \<^verbatim>\<open>datetime\<close>.
\<close>

subsection \<open>Python helpers\<close>

text \<open>
  \<^verbatim>\<open>str.isdigit\<close> on the code points below 256: the ASCII digits and the
  superscripts U+00B2, U+00B3 and U+00B9.
\<close>

definition isdigit :: "char \<Rightarrow> bool" where
  "isdigit c = (let n = of_char c :: nat in
     (48 \<le> n \<and> n \<le> 57) \<or> n = 178 \<or> n = 179 \<or> n = 185)"

definition startswith :: "string \<Rightarrow> string \<Rightarrow> bool" where
  "startswith s p = (take (length p) s = p)"

text \<open>JSON values read with \<^verbatim>\<open>dict.get\<close>: the key may be missing, or hold null.\<close>

datatype 'a jfield = Missing | Null | Val 'a

text \<open>\<^verbatim>\<open>d.get(key, default)\<close>; the result \<open>None\<close> is Python's \<^verbatim>\<open>None\<close>.\<close>

definition dict_get :: "'a jfield \<Rightarrow> 'a \<Rightarrow> 'a option" where
  "dict_get f d = (case f of Missing \<Rightarrow> Some d | Null \<Rightarrow> None | Val v \<Rightarrow> Some v)"

text \<open>\<^verbatim>\<open>d.get(key)\<close>, with default \<^verbatim>\<open>None\<close>.\<close>

definition dict_get_none :: "'a jfield \<Rightarrow> 'a option" where
  "dict_get_none f = (case f of Val v \<Rightarrow> Some v | _ \<Rightarrow> None)"

text \<open>The exceptions the code tells apart: \<^verbatim>\<open>ValueError\<close> and every other one.\<close>

datatype exn = ValueError | OtherException

subsection \<open>Gateway client: phone numbers\<close>

text \<open>
  \<^verbatim>\<open>MpesaHandler._sanitize_phone_number\<close>. Its \<^verbatim>\<open>except\<close> clause logs
  and re-raises, so the \<^verbatim>\<open>ValueError\<close> reaches the caller.
\<close>

definition sanitize_phone_number :: "string \<Rightarrow> exn + string" where
  "sanitize_phone_number phone_number =
     (let phone_digits = filter isdigit phone_number;
          phone_digits =
            (if startswith phone_digits ''0'' then ''254'' @ drop 1 phone_digits
             else if startswith phone_digits ''7'' \<and> length phone_digits = 9
               then ''254'' @ phone_digits
             else if \<not> startswith phone_digits ''254''
               then (if length phone_digits = 9 then ''254'' @ phone_digits
                     else phone_digits)
             else phone_digits)
      in if \<not> (startswith phone_digits ''254'' \<and> length phone_digits = 12)
         then Inl ValueError
         else Inr phone_digits)"

subsection \<open>Gateway client: construction and the two gateway calls\<close>

text \<open>
  What an HTTP exchange gives back: an exception (no connection, a timeout, a body that
  is not JSON, an unusable URL), or the parsed JSON body.
\<close>

datatype 'a http_outcome = HttpRaised exn | HttpBody 'a

text \<open>
  The configuration an \<^verbatim>\<open>MpesaHandler\<close> holds after construction. The fields
  obtained by encoding (\<^verbatim>\<open>password\<close>, \<^verbatim>\<open>timestamp\<close>, \<^verbatim>\<open>headers\<close>) take
  no part in the control flow and are left out.
\<close>

record mpesa_handler =
  business_shortcode :: "string option"
  till_number :: "string option"
  consumer_key :: "string option"
  consumer_secret :: "string option"
  access_token_url :: "string option"
  passkey :: "string option"
  stk_push_url :: "string option"
  query_status_url :: "string option"
  my_callback_url :: "string option"
  access_token :: "string option"

text \<open>The body of the token endpoint's answer, with its HTTP status.\<close>

record token_response =
  status_code :: int
  json_access_token :: "string jfield"

text \<open>
  \<^verbatim>\<open>MpesaHandler.get_mpesa_access_token\<close>: \<open>Inr None\<close> is the return of
  \<^verbatim>\<open>None\<close>. A null token makes \<^verbatim>\<open>len(token)\<close> raise inside the logging call,
  and the \<^verbatim>\<open>except\<close> clause re-raises.
\<close>

definition get_mpesa_access_token ::
  "token_response http_outcome \<Rightarrow> exn + string option" where
  "get_mpesa_access_token res =
     (case res of
        HttpRaised e \<Rightarrow> Inl e
      | HttpBody r \<Rightarrow>
          if status_code r \<noteq> 200 then Inr None
          else (case json_access_token r of
                  Missing \<Rightarrow> Inr None
                | Null \<Rightarrow> Inl OtherException
                | Val token \<Rightarrow>
                    if token = [] \<or> length token < 10 then Inr None
                    else Inr (Some token)))"

text \<open>\<^verbatim>\<open>not value\<close> on what \<^verbatim>\<open>os.getenv\<close> returns: unset, or the empty string.\<close>

definition not_value :: "string option \<Rightarrow> bool" where
  "not_value v = (case v of None \<Rightarrow> True | Some s \<Rightarrow> s = [])"

text \<open>The list \<^verbatim>\<open>required_vars\<close> of \<^verbatim>\<open>MpesaHandler.__init__\<close>, in its order.\<close>

definition required_vars :: "(string \<Rightarrow> string option) \<Rightarrow> (string \<times> string option) list" where
  "required_vars getenv =
     [(''SAF_SHORTCODE'', getenv ''SAF_SHORTCODE''),
      (''SAF_TILL_NUMBER'', getenv ''SAF_TILL_NUMBER''),
      (''SAF_CONSUMER_KEY'', getenv ''SAF_CONSUMER_KEY''),
      (''SAF_CONSUMER_SECRET'', getenv ''SAF_CONSUMER_SECRET''),
      (''SAF_ACCESS_TOKEN_API'', getenv ''SAF_ACCESS_TOKEN_API''),
      (''SAF_PASS_KEY'', getenv ''SAF_PASS_KEY''),
      (''SAF_STK_PUSH_API'', getenv ''SAF_STK_PUSH_API''),
      (''CALLBACK_URL'', getenv ''CALLBACK_URL'')]"

definition missing_vars :: "(string \<Rightarrow> string option) \<Rightarrow> string list" where
  "missing_vars getenv = map fst (filter (\<lambda>(name, v). not_value v) (required_vars getenv))"

text \<open>
  \<^verbatim>\<open>MpesaHandler.__init__\<close>, from the environment and the answer of the token
  endpoint. It raises \<^verbatim>\<open>ValueError\<close> when a listed variable is missing, re-raises
  what the token call raises, and raises when the token call returns \<^verbatim>\<open>None\<close>.
\<close>

definition MpesaHandler_init ::
  "(string \<Rightarrow> string option) \<Rightarrow> token_response http_outcome \<Rightarrow> exn + mpesa_handler" where
  "MpesaHandler_init getenv token_http =
     (if missing_vars getenv \<noteq> [] then Inl ValueError
      else (case get_mpesa_access_token token_http of
              Inl e \<Rightarrow> Inl e
            | Inr None \<Rightarrow> Inl OtherException
            | Inr (Some token) \<Rightarrow>
                Inr \<lparr> business_shortcode = getenv ''SAF_SHORTCODE'',
                      till_number = getenv ''SAF_TILL_NUMBER'',
                      consumer_key = getenv ''SAF_CONSUMER_KEY'',
                      consumer_secret = getenv ''SAF_CONSUMER_SECRET'',
                      access_token_url = getenv ''SAF_ACCESS_TOKEN_API'',
                      passkey = getenv ''SAF_PASS_KEY'',
                      stk_push_url = getenv ''SAF_STK_PUSH_API'',
                      query_status_url = getenv ''SAF_STK_PUSH_QUERY_API'',
                      my_callback_url = getenv ''CALLBACK_URL'',
                      access_token = Some token \<rparr>))"

text \<open>The push request sent to the gateway (the description string is left out).\<close>

record stk_request =
  BusinessShortCode :: "string option"
  Amount :: int
  PartyA :: string
  PartyB :: "string option"
  PhoneNumber :: string
  CallBackURL :: "string option"
  AccountReference :: string

text \<open>The fields of the gateway's answer to a push request that the code reads.\<close>

record stk_response =
  ResponseCode :: "string option"
  CheckoutRequestID :: "string option"
  errorMessage :: "string option"

definition stk_validation_error :: stk_response where
  "stk_validation_error =
     \<lparr> ResponseCode = Some ''1'', CheckoutRequestID = None,
       errorMessage = Some (''Invalid input. Please check your phone number and try again. ''
         @ ''If this issue persists, please report it using the Feedback tab in the Help Guide.'') \<rparr>"

definition stk_error :: stk_response where
  "stk_error =
     \<lparr> ResponseCode = Some ''1'', CheckoutRequestID = None,
       errorMessage = Some (''An error occurred during payment initiation. Please try again later. ''
         @ ''If this issue persists, please report it using the Feedback tab in the Help Guide.'') \<rparr>"

text \<open>
  \<^verbatim>\<open>MpesaHandler.initiate_stk_push\<close>. The gateway is a function from the request
  to the outcome of the exchange; \<open>generated\<close> is what
  \<^verbatim>\<open>generate_account_reference\<close> draws when no reference is supplied. Encrypting
  and decrypting the phone number and the reference in between gives them back
  unchanged. Both \<^verbatim>\<open>except\<close> clauses return a response and nothing is re-raised.
\<close>

definition initiate_stk_push ::
  "mpesa_handler \<Rightarrow> (stk_request \<Rightarrow> stk_response http_outcome) \<Rightarrow> string \<Rightarrow>
   string \<Rightarrow> int \<Rightarrow> string option \<Rightarrow> stk_response" where
  "initiate_stk_push mp gateway generated phone_number amount account_reference =
     (case sanitize_phone_number phone_number of
        Inl ValueError \<Rightarrow> stk_validation_error
      | Inl OtherException \<Rightarrow> stk_error
      | Inr sanitized_phone \<Rightarrow>
          let account_reference =
                take 12 (case account_reference of None \<Rightarrow> generated | Some a \<Rightarrow> a);
              payload = \<lparr> BusinessShortCode = business_shortcode mp,
                          Amount = amount,
                          PartyA = sanitized_phone,
                          PartyB = till_number mp,
                          PhoneNumber = sanitized_phone,
                          CallBackURL = my_callback_url mp,
                          AccountReference = account_reference \<rparr>
          in (case gateway payload of
                HttpRaised ValueError \<Rightarrow> stk_validation_error
              | HttpRaised OtherException \<Rightarrow> stk_error
              | HttpBody response_data \<Rightarrow> response_data))"

text \<open>The fields of the gateway's answer to a status query that the code reads.\<close>

record query_response =
  ResultCode :: "string jfield"
  MpesaReceiptNumber :: "string option"

text \<open>
  \<^verbatim>\<open>MpesaHandler.query_stk_push\<close>. The gateway is a function from the
  \<^verbatim>\<open>CheckoutRequestID\<close> of the query to the outcome of the exchange. The
  \<^verbatim>\<open>except\<close> clause logs and re-raises. \<^verbatim>\<open>SAF_STK_PUSH_QUERY_API\<close> is not
  among the required variables, so \<^verbatim>\<open>query_status_url\<close> can be \<^verbatim>\<open>None\<close> or
  empty; \<^verbatim>\<open>requests.post\<close> then rejects the URL with \<^verbatim>\<open>MissingSchema\<close>, a
  \<^verbatim>\<open>ValueError\<close>.
\<close>

definition query_stk_push ::
  "mpesa_handler \<Rightarrow> (string \<Rightarrow> query_response http_outcome) \<Rightarrow> string \<Rightarrow>
   exn + query_response" where
  "query_stk_push mp gateway checkout_request_id =
     (if not_value (query_status_url mp) then Inl ValueError
      else (case gateway checkout_request_id of
              HttpRaised e \<Rightarrow> Inl e
            | HttpBody response_data \<Rightarrow> Inr response_data))"

subsection \<open>Transaction store\<close>

type_synonym datetime = int

definition minutes :: "int \<Rightarrow> int" where
  "minutes n = n * 60000000"

definition days :: "int \<Rightarrow> int" where
  "days n = n * 86400000000"

text \<open>The \<^verbatim>\<open>metadata\<close> dictionary of a payment transaction.\<close>

record metadata =
  organization_id :: "string jfield"
  seats :: "int jfield"
  tier :: "string jfield"

text \<open>A row of \<^verbatim>\<open>payment_transactions\<close>.\<close>

record payment_transaction =
  user_id :: string
  amount :: int
  transaction_type :: string
  checkout_request_id :: "string option"
  phone_number_hash :: string
  credits_purchased :: int
  payment_status :: string
  payment_method :: string
  mpesa_receipt_number :: "string option"
  transaction_date :: datetime
  verification_attempts :: int
  tx_metadata :: metadata

text \<open>A row of \<^verbatim>\<open>organization_subscriptions\<close>.\<close>

record organization_subscription =
  sub_organization_id :: string
  subscription_tier :: "string option"
  status :: string
  seats_purchased :: int
  seats_used :: int
  price_per_seat :: int
  current_period_start :: datetime
  current_period_end :: datetime
  next_billing_date :: datetime

text \<open>A row of \<^verbatim>\<open>user_subscriptions\<close>, which holds the credit balance.\<close>

record user_subscription =
  sub_user_id :: string
  user_subscription_tier :: string
  credits_remaining :: int
  credits_total :: int
  subscription_end_date :: "datetime option"
  user_status :: string

text \<open>
  The tables the payment code touches. A table is the list of its rows, and no
  uniqueness constraint is assumed. A write can fail (the store is reached over the
  network): whether it is carried out is an input of the write, its argument
  \<open>landed\<close>. Reads are answered.
\<close>

record database =
  payment_transactions :: "payment_transaction list"
  organization_subscriptions :: "organization_subscription list"
  user_subscriptions :: "user_subscription list"



text \<open>
  \<^verbatim>\<open>DatabaseManager.update_payment_status\<close>: an update of every row with the
  given checkout id, whatever its current status. The receipt number is written
  only when it is given and not empty. A failed update is logged and the method
  returns \<^verbatim>\<open>False\<close>: the store is as before. The method's result, \<^verbatim>\<open>True\<close> or
  \<^verbatim>\<open>False\<close>, is \<open>landed\<close>; no caller reads it.
\<close>

definition update_payment_status ::
  "database \<Rightarrow> bool \<Rightarrow> string \<Rightarrow> string \<Rightarrow> string option \<Rightarrow> database" where
  "update_payment_status db landed cid new_status receipt_number =
     (if landed then
        db \<lparr> payment_transactions :=
          map (\<lambda>t. if checkout_request_id t = Some cid
                   then t \<lparr> payment_status := new_status,
                            mpesa_receipt_number :=
                              (if not_value receipt_number then mpesa_receipt_number t
                               else receipt_number) \<rparr>
                   else t)
              (payment_transactions db) \<rparr>
      else db)"

text \<open>
  \<^verbatim>\<open>DatabaseManager.get_payment_transaction_by_checkout_id\<close>: \<^verbatim>\<open>.single()\<close>
  raises unless exactly one row matches, and the method then returns \<^verbatim>\<open>None\<close>.
\<close>

definition get_payment_transaction_by_checkout_id ::
  "database \<Rightarrow> string \<Rightarrow> payment_transaction option" where
  "get_payment_transaction_by_checkout_id db cid =
     (case filter (\<lambda>t. checkout_request_id t = Some cid) (payment_transactions db) of
        [t] \<Rightarrow> Some t
      | _ \<Rightarrow> None)"

text \<open>
  \<^verbatim>\<open>DatabaseManager.create_organization_subscription\<close>: an insert. A failed insert
  is logged and re-raised.
\<close>

definition create_organization_subscription ::
  "database \<Rightarrow> bool \<Rightarrow> datetime \<Rightarrow> string \<Rightarrow> string option \<Rightarrow> int \<Rightarrow> int \<Rightarrow>
   exn + database" where
  "create_organization_subscription db landed now org_id tier_key n_seats seat_price =
     (let period_start = now;
          period_end = period_start + days 30
      in if landed then
           Inr (db \<lparr> organization_subscriptions := organization_subscriptions db @
             [\<lparr> sub_organization_id = org_id,
                subscription_tier = tier_key,
                status = ''active'',
                seats_purchased = n_seats,
                seats_used = 0,
                price_per_seat = seat_price,
                current_period_start = period_start,
                current_period_end = period_end,
                next_billing_date = period_end \<rparr>] \<rparr>)
         else Inl OtherException)"

subsection \<open>Payment flow orchestrator\<close>





text \<open>
  The dictionaries \<^verbatim>\<open>verify_and_process_payment\<close> returns, one constructor for
  each \<^verbatim>\<open>return\<close> statement, in the order of the source.
\<close>

datatype verify_result =
    TransactionNotFound
  | AlreadyProcessed
  | CreditsAdded int
  | StandardAccess datetime
  | SubscriptionActive string
  | PaymentFailed
  | TimedOut

text \<open>The \<^verbatim>\<open>success\<close> entry of the returned dictionary.\<close>

fun success :: "verify_result \<Rightarrow> bool" where
  "success TransactionNotFound = False"
| "success AlreadyProcessed = True"
| "success (CreditsAdded n) = True"
| "success (StandardAccess d) = True"
| "success (SubscriptionActive t) = True"
| "success PaymentFailed = False"
| "success TimedOut = False"


text \<open>The \<^verbatim>\<open>message\<close> entry, for the dictionaries whose message is a constant.\<close>

fun message :: "verify_result \<Rightarrow> string option" where
  "message TransactionNotFound = Some ''Transaction not found''"
| "message AlreadyProcessed = Some ''Payment already processed''"
| "message (StandardAccess d) = Some ''Payment successful! You now have Standard access.''"
| "message PaymentFailed = Some ''Payment was cancelled or failed. Please try again.''"
| "message TimedOut =
     Some ''Payment verification timed out. Please contact support if amount was deducted.''"
| "message r = None"

text \<open>
  How the block that processes a confirmed payment ends: with a \<^verbatim>\<open>return\<close>,
  with an exception (caught by the \<^verbatim>\<open>except\<close> clause of the loop body), or by
  falling through to the end of the loop body.
\<close>

datatype effect_outcome =
    Returned database verify_result
  | Raised database
  | FellThrough database

text \<open>\<^verbatim>\<open>int(amount / seats)\<close>: the quotient, truncated towards zero.\<close>

definition int_truediv :: "int \<Rightarrow> int \<Rightarrow> int" where
  "int_truediv a b = sgn a * sgn b * (\<bar>a\<bar> div \<bar>b\<bar>)"

text \<open>Truth value of an optional string: \<^verbatim>\<open>None\<close> and the empty string are false.\<close>

definition truthy :: "string option \<Rightarrow> bool" where
  "truthy v = (case v of None \<Rightarrow> False | Some s \<Rightarrow> s \<noteq> [])"

text \<open>
  The block of \<^verbatim>\<open>verify_and_process_payment\<close> that follows the status update
  on result code 0 (``Process payment based on transaction type''). The class
  \<^verbatim>\<open>SubscriptionManager\<close> defines neither \<^verbatim>\<open>add_credits\<close> nor
  \<^verbatim>\<open>upgrade_to_standard\<close>, and has no \<^verbatim>\<open>__getattr__\<close>: the two calls raise
  \<^verbatim>\<open>AttributeError\<close> before anything is written, and the \<^verbatim>\<open>return\<close>
  statements behind them are never reached. With null seats the comparison
  \<^verbatim>\<open>seats > 0\<close> raises; a failed insert of the subscription raises; with a null
  tier \<^verbatim>\<open>tier.title()\<close> raises, after the subscription row has been inserted.
  \<open>landed\<close> tells whether the store carries out the insert.
\<close>

definition process_payment ::
  "database \<Rightarrow> bool \<Rightarrow> datetime \<Rightarrow> payment_transaction \<Rightarrow> string \<Rightarrow> effect_outcome" where
  "process_payment db landed now transaction uid =
     (if transaction_type transaction = ''credit_purchase'' then Raised db
      else if transaction_type transaction = ''subscription'' then Raised db
      else if transaction_type transaction = ''organization_subscription'' then
        (let org_id = dict_get_none (organization_id (tx_metadata transaction));
             n_seats = dict_get (seats (tx_metadata transaction)) 1;
             tier_key = dict_get (tier (tx_metadata transaction)) ''individual''
         in case org_id of
              None \<Rightarrow> FellThrough db
            | Some org \<Rightarrow>
                if truthy org_id then
                  (case n_seats of
                     None \<Rightarrow> Raised db
                   | Some n \<Rightarrow>
                       (case create_organization_subscription db landed now org tier_key n
                               (if n > 0 then int_truediv (amount transaction) n else 0) of
                          Inl e \<Rightarrow> Raised db
                        | Inr db' \<Rightarrow>
                            (case tier_key of
                               None \<Rightarrow> Raised db'
                             | Some t \<Rightarrow> Returned db' (SubscriptionActive t))))
                else FellThrough db)
      else FellThrough db)"

text \<open>\<^verbatim>\<open>str(response.get("ResultCode", ""))\<close>.\<close>

definition result_code_of :: "query_response \<Rightarrow> string" where
  "result_code_of response =
     (case ResultCode response of Missing \<Rightarrow> [] | Null \<Rightarrow> ''None'' | Val c \<Rightarrow> c)"

text \<open>
  What the store does with the writes of one iteration of the polling loop: the update
  of the payment status, and the insert of the organization subscription.
\<close>

record store_answers =
  status_write_lands :: bool
  subscription_insert_lands :: bool

text \<open>
  The polling loop of \<^verbatim>\<open>verify_and_process_payment\<close>. \<open>polls k\<close> is the gateway
  as it answers the query of the iteration with \<^verbatim>\<open>attempts = k\<close>, \<open>clock k\<close> what
  \<^verbatim>\<open>datetime.now()\<close> reads in that iteration, and \<open>store k\<close> what the store does
  with the writes of that iteration; every iteration that does not return adds one to
  \<^verbatim>\<open>attempts\<close>. \<open>transaction\<close> is the row read before the loop. The result of
  \<^verbatim>\<open>update_payment_status\<close> is not looked at. \<^verbatim>\<open>time.sleep(delay)\<close> changes
  nothing of the state; \<open>delay\<close> is a number of seconds.
\<close>

function verify_loop ::
  "mpesa_handler \<Rightarrow> (int \<Rightarrow> string \<Rightarrow> query_response http_outcome) \<Rightarrow> (int \<Rightarrow> datetime) \<Rightarrow>
   (int \<Rightarrow> store_answers) \<Rightarrow> payment_transaction \<Rightarrow> string \<Rightarrow> string \<Rightarrow> int \<Rightarrow> nat \<Rightarrow> int \<Rightarrow>
   database \<Rightarrow> database \<times> verify_result" where
  "verify_loop mp polls clock store transaction cid uid max_attempts delay attempts db =
     (if attempts < max_attempts then
        (case query_stk_push mp (polls attempts) cid of
           Inl e \<Rightarrow>
             verify_loop mp polls clock store transaction cid uid max_attempts delay
               (attempts + 1) db
         | Inr response \<Rightarrow>
             let result_code = result_code_of response in
             if result_code = ''0'' then
               (let receipt_number =
                      (case MpesaReceiptNumber response of None \<Rightarrow> [] | Some r \<Rightarrow> r);
                    db1 = update_payment_status db (status_write_lands (store attempts)) cid
                            ''completed'' (Some receipt_number)
                in case process_payment db1 (subscription_insert_lands (store attempts))
                          (clock attempts) transaction uid of
                     Returned db2 r \<Rightarrow> (db2, r)
                   | Raised db2 \<Rightarrow>
                       verify_loop mp polls clock store transaction cid uid max_attempts delay
                         (attempts + 1) db2
                   | FellThrough db2 \<Rightarrow>
                       verify_loop mp polls clock store transaction cid uid max_attempts delay
                         (attempts + 1) db2)
             else if result_code \<in> set [''1032'', ''1037'', ''1''] then
               (update_payment_status db (status_write_lands (store attempts)) cid
                  ''failed'' None,
                PaymentFailed)
             else
               verify_loop mp polls clock store transaction cid uid max_attempts delay
                 (attempts + 1) db)
      else (db, TimedOut))"
  by pat_completeness auto
termination
  by (relation "measure (\<lambda>(mp, polls, clock, store, transaction, cid, uid, max_attempts, delay,
        attempts, db). nat (max_attempts - attempts))") auto

text \<open>\<^verbatim>\<open>PaymentFlowManager.verify_and_process_payment\<close>.\<close>

definition verify_and_process_payment ::
  "mpesa_handler \<Rightarrow> (int \<Rightarrow> string \<Rightarrow> query_response http_outcome) \<Rightarrow> (int \<Rightarrow> datetime) \<Rightarrow>
   (int \<Rightarrow> store_answers) \<Rightarrow> database \<Rightarrow> string \<Rightarrow> string \<Rightarrow> int \<Rightarrow> nat \<Rightarrow>
   database \<times> verify_result" where
  "verify_and_process_payment mp polls clock store db cid uid max_attempts delay =
     (case get_payment_transaction_by_checkout_id db cid of
        None \<Rightarrow> (db, TransactionNotFound)
      | Some transaction \<Rightarrow>
          if payment_status transaction = ''completed'' then (db, AlreadyProcessed)
          else verify_loop mp polls clock store transaction cid uid max_attempts delay 0 db)"

subsection \<open>Session payment guard\<close>

text \<open>
  The dataclass \<^verbatim>\<open>PaymentStatus\<close> of \<^verbatim>\<open>payment_verification.py\<close>. Its
  \<^verbatim>\<open>document_id\<close> is a copy of the session's current document id, which can be
  \<^verbatim>\<open>None\<close>.
\<close>

record PaymentStatus =
  document_id :: "string option"
  ps_checkout_request_id :: string
  ps_amount :: int
  timestamp :: datetime
  verified :: bool
  ps_attempts :: int

text \<open>The three entries of \<^verbatim>\<open>st.session_state\<close> the guard uses.\<close>

record session_state =
  session_payment_status :: "PaymentStatus option"
  payment_verified :: bool
  current_document_id :: "string option"

text \<open>\<^verbatim>\<open>reset_payment_state\<close>; \<open>doc_id\<close> is what \<^verbatim>\<open>generate_document_id\<close> draws.\<close>

definition reset_payment_state :: "session_state \<Rightarrow> string \<Rightarrow> session_state" where
  "reset_payment_state s doc_id =
     s \<lparr> session_payment_status := None, payment_verified := False,
         current_document_id := Some doc_id \<rparr>"

text \<open>
  \<^verbatim>\<open>update_payment_status\<close> of \<^verbatim>\<open>payment_verification.py\<close> (the store has a
  method of the same name).
\<close>

definition session_update_payment_status ::
  "session_state \<Rightarrow> datetime \<Rightarrow> string \<Rightarrow> int \<Rightarrow> session_state" where
  "session_update_payment_status s now cid amt =
     s \<lparr> session_payment_status :=
           Some \<lparr> document_id = current_document_id s,
                  ps_checkout_request_id = cid,
                  ps_amount = amt,
                  timestamp = now,
                  verified = False,
                  ps_attempts = 0 \<rparr>,
         payment_verified := False \<rparr>"

text \<open>
  \<^verbatim>\<open>str(response.get('ResultCode'))\<close>, or the empty string when the entry is
  missing or null.
\<close>

definition guard_result_code :: "query_response \<Rightarrow> string" where
  "guard_result_code response =
     (case ResultCode response of Missing \<Rightarrow> [] | Null \<Rightarrow> [] | Val c \<Rightarrow> c)"

text \<open>The loop of \<^verbatim>\<open>PaymentVerification.verify_payment\<close>.\<close>

function verify_payment_loop ::
  "mpesa_handler \<Rightarrow> (int \<Rightarrow> string \<Rightarrow> query_response http_outcome) \<Rightarrow> string \<Rightarrow> int \<Rightarrow>
   nat \<Rightarrow> int \<Rightarrow> bool" where
  "verify_payment_loop mp polls cid max_attempts delay k =
     (if k < max_attempts then
        (case query_stk_push mp (polls k) cid of
           Inl e \<Rightarrow> verify_payment_loop mp polls cid max_attempts delay (k + 1)
         | Inr response \<Rightarrow>
             let result_code = guard_result_code response in
             if result_code = ''0'' then True
             else if result_code \<in> set [''1032'', ''1037''] then False
             else verify_payment_loop mp polls cid max_attempts delay (k + 1))
      else False)"
  by pat_completeness auto
termination
  by (relation "measure (\<lambda>(mp, polls, cid, max_attempts, delay, k). nat (max_attempts - k))")
     auto

text \<open>\<^verbatim>\<open>PaymentVerification.verify_payment\<close>.\<close>

definition verify_payment ::
  "mpesa_handler \<Rightarrow> (int \<Rightarrow> string \<Rightarrow> query_response http_outcome) \<Rightarrow> session_state \<Rightarrow>
   string \<Rightarrow> string \<Rightarrow> int \<Rightarrow> nat \<Rightarrow> bool" where
  "verify_payment mp polls s cid doc_id max_attempts delay =
     (case session_payment_status s of
        None \<Rightarrow> False
      | Some ps \<Rightarrow>
          if document_id ps \<noteq> Some doc_id then False
          else verify_payment_loop mp polls cid max_attempts delay 0)"

text \<open>
  \<^verbatim>\<open>handle_download_request\<close>: the new session state and whether the download is
  allowed. \<open>now\<close> is the clock reading; \<^verbatim>\<open>verify_payment\<close> is called with its
  default budget of 5 attempts, 5 seconds apart.
\<close>

definition handle_download_request ::
  "mpesa_handler \<Rightarrow> (int \<Rightarrow> string \<Rightarrow> query_response http_outcome) \<Rightarrow> datetime \<Rightarrow>
   session_state \<Rightarrow> session_state \<times> bool" where
  "handle_download_request mp polls now s =
     (case current_document_id s of
        None \<Rightarrow> (s, False)
      | Some doc_id \<Rightarrow>
          if doc_id = [] then (s, False)
          else if payment_verified s \<and>
                  (case session_payment_status s of
                     None \<Rightarrow> False
                   | Some ps \<Rightarrow> document_id ps = Some doc_id)
          then (s, True)
          else (case session_payment_status s of
                  None \<Rightarrow> (s, False)
                | Some ps \<Rightarrow>
                    let payment_age = now - timestamp ps in
                    if payment_age > minutes 30
                    then (s \<lparr> session_payment_status := None \<rparr>, False)
                    else if verify_payment mp polls s (ps_checkout_request_id ps) doc_id 5 5
                    then (s \<lparr> payment_verified := True \<rparr>, True)
                    else (s, False)))"

subsection \<open>Relating a row before and after a call\<close>

text \<open>
  What the calls for checkout id \<open>cid\<close> may do to a row: nothing, if the row has another
  id; otherwise at most set its status to \<open>completed\<close> or \<open>failed\<close>.
\<close>

definition status_step :: "string \<Rightarrow> payment_transaction \<Rightarrow> payment_transaction \<Rightarrow> bool" where
  "status_step cid t t' =
     ((checkout_request_id t \<noteq> Some cid \<longrightarrow> t' = t)
      \<and> (payment_status t' = payment_status t \<or> payment_status t' = ''completed''
           \<or> payment_status t' = ''failed''))"

text \<open>The ten decimal digits.\<close>

definition decimal_digit :: "char \<Rightarrow> bool" where
  "decimal_digit c = (c \<in> set ''0123456789'')"

subsection \<open>Fixtures\<close>

text \<open>
  Concrete handlers, stores, sessions and gateways, after the fixtures of the repository's
  tests; the theorems below are instantiated at them.
\<close>

definition fixture_handler :: mpesa_handler where
  "fixture_handler =
     \<lparr> business_shortcode = Some ''174379'', till_number = Some ''174379'',
       consumer_key = Some ''key'', consumer_secret = Some ''secret'',
       access_token_url = Some ''https://gateway.test/oauth'',
       passkey = Some ''passkey'',
       stk_push_url = Some ''https://gateway.test/stkpush'',
       query_status_url = Some ''https://gateway.test/stkquery'',
       my_callback_url = Some ''https://app.test/callback'',
       access_token = Some ''0123456789abcdef'' \<rparr>"

definition fixture_transaction :: "string \<Rightarrow> string \<Rightarrow> string \<Rightarrow> int \<Rightarrow> payment_transaction" where
  "fixture_transaction cid ttype st credits =
     \<lparr> user_id = ''u1'', amount = 6000, transaction_type = ttype,
       checkout_request_id = Some cid, phone_number_hash = ''0a1b2c3d'',
       credits_purchased = credits, payment_status = st, payment_method = ''mpesa'',
       mpesa_receipt_number = None, transaction_date = 0, verification_attempts = 0,
       tx_metadata = \<lparr> organization_id = Null, seats = Null, tier = Null \<rparr> \<rparr>"

definition fixture_subscription :: user_subscription where
  "fixture_subscription =
     \<lparr> sub_user_id = ''u1'', user_subscription_tier = ''pay_as_you_go'',
       credits_remaining = 0, credits_total = 0, subscription_end_date = None,
       user_status = ''active'' \<rparr>"

definition fixture_database :: "payment_transaction \<Rightarrow> database" where
  "fixture_database t =
     \<lparr> payment_transactions = [t], organization_subscriptions = [],
       user_subscriptions = [fixture_subscription] \<rparr>"

text \<open>A gateway that answers every status query with the same code and receipt.\<close>

definition reply :: "string \<Rightarrow> string option \<Rightarrow> string \<Rightarrow> query_response http_outcome" where
  "reply code receipt cid = HttpBody \<lparr> ResultCode = Val code, MpesaReceiptNumber = receipt \<rparr>"

definition fixture_org_transaction :: "string \<Rightarrow> string jfield \<Rightarrow> payment_transaction" where
  "fixture_org_transaction st org =
     \<lparr> user_id = ''u1'', amount = 3250000, transaction_type = ''organization_subscription'',
       checkout_request_id = Some ''ws_CO_ORG'', phone_number_hash = ''0a1b2c3d'',
       credits_purchased = 0, payment_status = st, payment_method = ''mpesa'',
       mpesa_receipt_number = None, transaction_date = 0, verification_attempts = 0,
       tx_metadata = \<lparr> organization_id = org, seats = Val 5, tier = Val ''team'' \<rparr> \<rparr>"

text \<open>An environment with every variable the constructor lists, and no query URL.\<close>

definition fixture_env :: "string \<Rightarrow> string option" where
  "fixture_env = map_of
     [(''SAF_SHORTCODE'', ''174379''),
      (''SAF_TILL_NUMBER'', ''174379''),
      (''SAF_CONSUMER_KEY'', ''key''),
      (''SAF_CONSUMER_SECRET'', ''secret''),
      (''SAF_ACCESS_TOKEN_API'', ''https://gateway.test/oauth''),
      (''SAF_PASS_KEY'', ''passkey''),
      (''SAF_STK_PUSH_API'', ''https://gateway.test/stkpush''),
      (''CALLBACK_URL'', ''https://app.test/callback'')]"

definition fixture_token :: "token_response http_outcome" where
  "fixture_token = HttpBody \<lparr> status_code = 200, json_access_token = Val ''0123456789abcdef'' \<rparr>"




text \<open>A session with a document, and the same session after a payment was initiated.\<close>

definition fixture_session :: session_state where
  "fixture_session =
     \<lparr> session_payment_status = None, payment_verified = False,
       current_document_id = Some ''doc_20260101120000_00ff'' \<rparr>"

definition fixture_status :: PaymentStatus where
  "fixture_status =
     \<lparr> document_id = Some ''doc_20260101120000_00ff'', ps_checkout_request_id = ''ws_CO_1'',
       ps_amount = 100, timestamp = 0, verified = False, ps_attempts = 0 \<rparr>"

text \<open>The same gateway on every poll, a clock that stands still, a gateway out of reach.\<close>

definition every_poll :: "(string \<Rightarrow> query_response http_outcome) \<Rightarrow> int \<Rightarrow> string \<Rightarrow>
  query_response http_outcome" where
  "every_poll gateway k = gateway"

definition steady_clock :: "datetime \<Rightarrow> int \<Rightarrow> datetime" where
  "steady_clock now k = now"

definition unreachable :: "string \<Rightarrow> query_response http_outcome" where
  "unreachable cid = HttpRaised OtherException"

text \<open>A store that carries out every write, and one that drops every status update.\<close>

definition reliable_store :: "int \<Rightarrow> store_answers" where
  "reliable_store k = \<lparr> status_write_lands = True, subscription_insert_lands = True \<rparr>"

definition dropped_status_writes :: "int \<Rightarrow> store_answers" where
  "dropped_status_writes k = \<lparr> status_write_lands = False, subscription_insert_lands = True \<rparr>"

text \<open>Nine superscript twos (U+00B2) after the country code.\<close>

definition superscript_number :: string where
  "superscript_number = ''254'' @ replicate 9 (CHR 0xB2)"

section \<open>Properties\<close>

subsection \<open>Phone number normalisation\<close>

lemma isdigit_254: "\<forall>c \<in> set ''254''. isdigit c"
  by (simp add: isdigit_def)

lemma sanitize_phone_number_shape:
  assumes "sanitize_phone_number p = Inr r"
  shows "r = ''254'' @ drop 1 (filter isdigit p) \<or> r = ''254'' @ filter isdigit p
         \<or> r = filter isdigit p"
  using assms unfolding sanitize_phone_number_def Let_def
  by (simp split: if_splits)

lemma sanitize_phone_number_check:
  assumes "sanitize_phone_number p = Inr r"
  shows "startswith r ''254'' \<and> length r = 12"
  using assms unfolding sanitize_phone_number_def Let_def
  by (simp split: if_splits)

lemma sanitize_phone_number_Inr:
  assumes "sanitize_phone_number p = Inr r"
  shows "startswith r ''254'' \<and> length r = 12 \<and> (\<forall>c \<in> set r. isdigit c)"
proof -
  have "set r \<subseteq> set ''254'' \<union> set (filter isdigit p)"
    using sanitize_phone_number_shape [OF assms] set_drop_subset [of 1 "filter isdigit p"]
    by auto
  then have "\<forall>c \<in> set r. isdigit c"
    using isdigit_254 by auto
  with sanitize_phone_number_check [OF assms] show ?thesis
    by simp
qed

text \<open>
  C8, evaluated. The three spellings \<open>0712345678\<close>, \<open>712345678\<close> and
  \<open>254712345678\<close> all normalise to \<open>254712345678\<close>, and \<open>123\<close> is rejected with
  the validation error. A returned value need not consist of digits, though: the filter
  is \<^verbatim>\<open>str.isdigit\<close>, which keeps the superscripts, so \<open>254\<close> followed by nine
  superscript twos is returned as it is: twelve characters, starting with \<open>254\<close>, of
  which only the first three are digits \<open>0\<close> to \<open>9\<close>.
\<close>

theorem sanitize_phone_number_keeps_superscripts:
  "sanitize_phone_number ''0712345678'' = Inr ''254712345678''
   \<and> sanitize_phone_number ''712345678'' = Inr ''254712345678''
   \<and> sanitize_phone_number ''254712345678'' = Inr ''254712345678''
   \<and> sanitize_phone_number ''123'' = Inl ValueError
   \<and> sanitize_phone_number superscript_number = Inr superscript_number
   \<and> startswith superscript_number ''254''
   \<and> length superscript_number = 12
   \<and> filter decimal_digit superscript_number = ''254''"
proof -
  have a: "sanitize_phone_number ''0712345678'' = Inr ''254712345678''"
    by (simp add: sanitize_phone_number_def isdigit_def startswith_def)
  have b: "sanitize_phone_number ''712345678'' = Inr ''254712345678''"
    by (simp add: sanitize_phone_number_def isdigit_def startswith_def)
  have c: "sanitize_phone_number ''254712345678'' = Inr ''254712345678''"
    by (simp add: sanitize_phone_number_def isdigit_def startswith_def)
  have d: "sanitize_phone_number ''123'' = Inl ValueError"
    by (simp add: sanitize_phone_number_def isdigit_def startswith_def)
  have n: "superscript_number = ''254'' @ [CHR 0xB2, CHR 0xB2, CHR 0xB2, CHR 0xB2, CHR 0xB2,
             CHR 0xB2, CHR 0xB2, CHR 0xB2, CHR 0xB2]"
    by (simp add: superscript_number_def eval_nat_numeral)
  have e: "sanitize_phone_number superscript_number = Inr superscript_number"
    unfolding n by (simp add: sanitize_phone_number_def isdigit_def startswith_def)
  have f: "startswith superscript_number ''254''"
    unfolding n by (simp add: startswith_def)
  have g: "length superscript_number = 12"
    unfolding n by simp
  have h: "filter decimal_digit superscript_number = ''254''"
    unfolding n by (simp add: decimal_digit_def)
  show ?thesis
    by (intro conjI a b c d e f g h)
qed

declare verify_loop.simps [simp del]
declare verify_payment_loop.simps [simp del]

lemmas fixture_defs = fixture_handler_def fixture_transaction_def fixture_subscription_def
  fixture_database_def reply_def fixture_org_transaction_def every_poll_def steady_clock_def
  unreachable_def reliable_store_def dropped_status_writes_def

lemmas verify_defs = verify_and_process_payment_def get_payment_transaction_by_checkout_id_def
  query_stk_push_def not_value_def result_code_of_def update_payment_status_def
  process_payment_def truthy_def dict_get_def dict_get_none_def
  create_organization_subscription_def int_truediv_def days_def

subsection \<open>Store lemmas\<close>

lemma update_payment_status_dropped:
  "update_payment_status db False cid st rn = db"
  by (simp add: update_payment_status_def)


lemma update_payment_status_ids:
  "map checkout_request_id (payment_transactions (update_payment_status db l cid st rn))
   = map checkout_request_id (payment_transactions db)"
  by (simp add: update_payment_status_def)

lemma update_payment_status_marks:
  assumes "t \<in> set (payment_transactions (update_payment_status db True cid st rn))"
    and "checkout_request_id t = Some cid"
  shows "payment_status t = st"
  using assms by (auto simp: update_payment_status_def split: if_splits)

text \<open>Rows of the given checkout id that all read \<open>st\<close> still do after a write of \<open>st\<close>.\<close>

lemma update_payment_status_keeps:
  assumes "\<forall>t \<in> set (payment_transactions db).
             checkout_request_id t = Some cid \<longrightarrow> payment_status t = st"
    and "t \<in> set (payment_transactions (update_payment_status db l cid st rn))"
    and "checkout_request_id t = Some cid"
  shows "payment_status t = st"
proof (cases l)
  case True
  with assms(2,3) update_payment_status_marks [of t db cid st rn] show ?thesis by simp
next
  case False
  with assms show ?thesis by (simp add: update_payment_status_dropped)
qed




lemma process_payment_transactions:
  "process_payment db l now tx uid = Returned db' r \<Longrightarrow>
     payment_transactions db' = payment_transactions db"
  "process_payment db l now tx uid = Raised db' \<Longrightarrow>
     payment_transactions db' = payment_transactions db"
  "process_payment db l now tx uid = FellThrough db' \<Longrightarrow>
     payment_transactions db' = payment_transactions db"
  by (auto simp: process_payment_def create_organization_subscription_def Let_def
      split: if_splits option.splits sum.splits)


lemma lookup_by_ids:
  assumes "map checkout_request_id (payment_transactions db')
           = map checkout_request_id (payment_transactions db)"
    and "get_payment_transaction_by_checkout_id db cid = Some t"
  shows "\<exists>t'. get_payment_transaction_by_checkout_id db' cid = Some t'
              \<and> t' \<in> set (payment_transactions db') \<and> checkout_request_id t' = Some cid"
proof -
  let ?P = "\<lambda>c. c = Some cid"
  have len: "length (filter (\<lambda>t. checkout_request_id t = Some cid) xs)
             = length (filter ?P (map checkout_request_id xs))" for xs :: "payment_transaction list"
    by (induction xs) auto
  from assms(2)
  have "length (filter (\<lambda>t. checkout_request_id t = Some cid) (payment_transactions db)) = 1"
    by (auto simp: get_payment_transaction_by_checkout_id_def split: list.splits)
  with assms(1)
  have "length (filter (\<lambda>t. checkout_request_id t = Some cid) (payment_transactions db')) = 1"
    by (simp add: len)
  then obtain t' where
    f: "filter (\<lambda>t. checkout_request_id t = Some cid) (payment_transactions db') = [t']"
    by (auto simp: length_Suc_conv)
  then have "t' \<in> set (filter (\<lambda>t. checkout_request_id t = Some cid) (payment_transactions db'))"
    by simp
  then have "t' \<in> set (payment_transactions db') \<and> checkout_request_id t' = Some cid"
    by simp
  with f show ?thesis
    by (simp add: get_payment_transaction_by_checkout_id_def)
qed

lemma lookup_member:
  assumes "get_payment_transaction_by_checkout_id db cid = Some t"
  shows "t \<in> set (payment_transactions db) \<and> checkout_request_id t = Some cid"
  using lookup_by_ids [OF refl assms] assms by auto

lemma lookup_unique:
  assumes "get_payment_transaction_by_checkout_id db cid = Some t"
    and "u \<in> set (payment_transactions db)" and "checkout_request_id u = Some cid"
  shows "u = t"
proof -
  from assms(1)
  have "filter (\<lambda>t. checkout_request_id t = Some cid) (payment_transactions db) = [t]"
    by (auto simp: get_payment_transaction_by_checkout_id_def split: list.splits)
  moreover from assms(2,3)
  have "u \<in> set (filter (\<lambda>t. checkout_request_id t = Some cid) (payment_transactions db))"
    by simp
  ultimately show ?thesis by simp
qed

subsection \<open>Loop lemmas\<close>

lemma attempts_induct:
  fixes a :: int
  assumes step: "\<And>a db. (\<And>db2. a < m \<Longrightarrow> P (a + 1) db2) \<Longrightarrow> P a db"
  shows "P a db"
proof (induction "nat (m - a)" arbitrary: a db)
  case 0
  then have n: "\<not> a < m" by simp
  show ?case by (rule step) (simp add: n)
next
  case (Suc k)
  show ?case
  proof (rule step)
    fix db2
    assume "a < m"
    with Suc.hyps(2) have "k = nat (m - (a + 1))" by simp
    then show "P (a + 1) db2" by (rule Suc.hyps(1))
  qed
qed

lemma verify_loop_exit:
  "\<not> a < m \<Longrightarrow> verify_loop mp polls clock store tx cid uid m d a db = (db, TimedOut)"
  by (simp add: verify_loop.simps)

lemma verify_loop_raised:
  "a < m \<Longrightarrow> query_stk_push mp (polls a) cid = Inl e \<Longrightarrow>
   verify_loop mp polls clock store tx cid uid m d a db
   = verify_loop mp polls clock store tx cid uid m d (a + 1) db"
  by (simp add: verify_loop.simps [of _ _ _ _ _ _ _ _ _ a])

lemma verify_loop_pending:
  "a < m \<Longrightarrow> query_stk_push mp (polls a) cid = Inr response \<Longrightarrow>
   result_code_of response \<noteq> ''0'' \<Longrightarrow>
   result_code_of response \<notin> set [''1032'', ''1037'', ''1''] \<Longrightarrow>
   verify_loop mp polls clock store tx cid uid m d a db
   = verify_loop mp polls clock store tx cid uid m d (a + 1) db"
  by (simp add: verify_loop.simps [of _ _ _ _ _ _ _ _ _ a] Let_def)

lemma verify_loop_terminal:
  "a < m \<Longrightarrow> query_stk_push mp (polls a) cid = Inr response \<Longrightarrow>
   result_code_of response \<in> set [''1032'', ''1037'', ''1''] \<Longrightarrow>
   verify_loop mp polls clock store tx cid uid m d a db
   = (update_payment_status db (status_write_lands (store a)) cid ''failed'' None,
      PaymentFailed)"
  by (auto simp add: verify_loop.simps [of _ _ _ _ _ _ _ _ _ a] Let_def)

lemma verify_loop_confirmed:
  "a < m \<Longrightarrow> query_stk_push mp (polls a) cid = Inr response \<Longrightarrow>
   result_code_of response = ''0'' \<Longrightarrow>
   verify_loop mp polls clock store tx cid uid m d a db
   = (case process_payment
             (update_payment_status db (status_write_lands (store a)) cid ''completed''
                (Some (case MpesaReceiptNumber response of None \<Rightarrow> [] | Some r \<Rightarrow> r)))
             (subscription_insert_lands (store a)) (clock a) tx uid of
        Returned db2 r \<Rightarrow> (db2, r)
      | Raised db2 \<Rightarrow> verify_loop mp polls clock store tx cid uid m d (a + 1) db2
      | FellThrough db2 \<Rightarrow> verify_loop mp polls clock store tx cid uid m d (a + 1) db2)"
  by (simp add: verify_loop.simps [of _ _ _ _ _ _ _ _ _ a] Let_def)

text \<open>
  A proof rule for the loop: \<open>I\<close> holds of the store at the head of every iteration,
  \<open>Q\<close> of the store and the result at every exit. \<open>k\<close> is the iteration, between
  the first one, \<open>a\<close>, and the last.
\<close>

lemma verify_loop_rule:
  assumes timeout: "\<And>db. I db \<Longrightarrow> Q db TimedOut"
    and failed: "\<And>db k. I db \<Longrightarrow> a \<le> k \<Longrightarrow> k < m \<Longrightarrow>
           Q (update_payment_status db (status_write_lands (store k)) cid ''failed'' None)
             PaymentFailed"
    and returned: "\<And>db k rn db2 r. I db \<Longrightarrow> a \<le> k \<Longrightarrow> k < m \<Longrightarrow>
           process_payment
             (update_payment_status db (status_write_lands (store k)) cid ''completed'' (Some rn))
             (subscription_insert_lands (store k)) (clock k) tx uid = Returned db2 r \<Longrightarrow> Q db2 r"
    and raised: "\<And>db k rn db2. I db \<Longrightarrow> a \<le> k \<Longrightarrow> k < m \<Longrightarrow>
           process_payment
             (update_payment_status db (status_write_lands (store k)) cid ''completed'' (Some rn))
             (subscription_insert_lands (store k)) (clock k) tx uid = Raised db2 \<Longrightarrow> I db2"
    and fell: "\<And>db k rn db2. I db \<Longrightarrow> a \<le> k \<Longrightarrow> k < m \<Longrightarrow>
           process_payment
             (update_payment_status db (status_write_lands (store k)) cid ''completed'' (Some rn))
             (subscription_insert_lands (store k)) (clock k) tx uid = FellThrough db2 \<Longrightarrow> I db2"
  shows "I db \<Longrightarrow> verify_loop mp polls clock store tx cid uid m d a db = (db', r) \<Longrightarrow> Q db' r"
proof -
  have "a \<le> k \<Longrightarrow> I db \<Longrightarrow> verify_loop mp polls clock store tx cid uid m d k db = (db', r)
        \<Longrightarrow> Q db' r" for k
  proof (induction k db rule: attempts_induct [where m = m])
    case (1 k db)
    note ge = "1.prems"(1) and inv = "1.prems"(2) and run = "1.prems"(3)
    show ?case
    proof (cases "k < m")
      case False
      with run timeout [OF inv] show ?thesis
        by (simp add: verify_loop_exit)
    next
      case True
      from ge have ge': "a \<le> k + 1" by simp
      show ?thesis
      proof (cases "query_stk_push mp (polls k) cid")
        case (Inl e)
        with True run have "verify_loop mp polls clock store tx cid uid m d (k + 1) db = (db', r)"
          by (simp add: verify_loop_raised)
        with "1.IH" [OF True ge' inv] show ?thesis by simp
      next
        case (Inr response)
        define rn where "rn = (case MpesaReceiptNumber response of None \<Rightarrow> [] | Some r \<Rightarrow> r)"
        define db1 where "db1 = update_payment_status db (status_write_lands (store k)) cid
                                  ''completed'' (Some rn)"
        consider (zero) "result_code_of response = ''0''"
          | (fail) "result_code_of response \<noteq> ''0''"
                   "result_code_of response \<in> set [''1032'', ''1037'', ''1'']"
          | (pend) "result_code_of response \<noteq> ''0''"
                   "result_code_of response \<notin> set [''1032'', ''1037'', ''1'']"
          by blast
        then show ?thesis
        proof cases
          case zero
          note eq = verify_loop_confirmed [where polls = polls and a = k and clock = clock
              and store = store and tx = tx and uid = uid and d = d and db = db,
              OF True Inr zero, folded rn_def, folded db1_def]
          show ?thesis
          proof (cases "process_payment db1 (subscription_insert_lands (store k)) (clock k)
                          tx uid")
            case (Returned db2 r2)
            with eq run have "db' = db2" "r = r2" by simp_all
            with returned [OF inv ge True Returned [unfolded db1_def]] show ?thesis by simp
          next
            case (Raised db2)
            with eq run
            have "verify_loop mp polls clock store tx cid uid m d (k + 1) db2 = (db', r)"
              by simp
            with "1.IH" [OF True ge' raised [OF inv ge True Raised [unfolded db1_def]]]
            show ?thesis by simp
          next
            case (FellThrough db2)
            with eq run
            have "verify_loop mp polls clock store tx cid uid m d (k + 1) db2 = (db', r)"
              by simp
            with "1.IH" [OF True ge' fell [OF inv ge True FellThrough [unfolded db1_def]]]
            show ?thesis by simp
          qed
        next
          case fail
          from verify_loop_terminal [where polls = polls and a = k and store = store,
              OF True Inr fail(2)] run
          have "db' = update_payment_status db (status_write_lands (store k)) cid ''failed'' None"
            "r = PaymentFailed" by simp_all
          with failed [OF inv ge True] show ?thesis by simp
        next
          case pend
          from verify_loop_pending [where polls = polls and a = k, OF True Inr pend] run
          have "verify_loop mp polls clock store tx cid uid m d (k + 1) db = (db', r)" by simp
          with "1.IH" [OF True ge' inv] show ?thesis by simp
        qed
      qed
    qed
  qed
  from this [of a] show "I db \<Longrightarrow> verify_loop mp polls clock store tx cid uid m d a db = (db', r)
        \<Longrightarrow> Q db' r"
    by simp
qed

lemma verify_loop_ids:
  assumes "verify_loop mp polls clock store tx cid uid m d a db = (db', r)"
  shows "map checkout_request_id (payment_transactions db')
         = map checkout_request_id (payment_transactions db)"
proof -
  let ?I = "\<lambda>x. map checkout_request_id (payment_transactions x)
             = map checkout_request_id (payment_transactions db)"
  have base: "?I db" by simp
  show ?thesis
    by (rule verify_loop_rule [where I = ?I and Q = "\<lambda>x r. ?I x", OF _ _ _ _ _ base assms])
       (simp_all add: update_payment_status_ids process_payment_transactions)
qed




subsection \<open>A confirmed organization purchase, evaluated\<close>


subsection \<open>Idempotence of verification\<close>




subsection \<open>Confirmed credit and subscription purchases\<close>

text \<open>
  C3, evaluated. A pending credit purchase of 10 credits, and a pending subscription
  purchase, each confirmed by the gateway on the only poll: the row is marked
  \<open>completed\<close> with the receipt number, the call that should apply the effect raises,
  the attempt is used up, and the caller gets the timeout failure. The user's
  subscription row, with its credit balance and end date, is as before.
\<close>

theorem confirmed_credit_purchase_is_not_applied:
  "verify_and_process_payment fixture_handler (every_poll (reply ''0'' (Some ''RCT1''))) (steady_clock 0)
     reliable_store
     (fixture_database (fixture_transaction ''ws_CO_1'' ''credit_purchase'' ''pending'' 10))
     ''ws_CO_1'' ''u1'' 1 5
   = (fixture_database
        ((fixture_transaction ''ws_CO_1'' ''credit_purchase'' ''completed'' 10)
           \<lparr> mpesa_receipt_number := Some ''RCT1'' \<rparr>),
      TimedOut)
   \<and> verify_and_process_payment fixture_handler (every_poll (reply ''0'' (Some ''RCT2''))) (steady_clock 0)
     reliable_store
     (fixture_database (fixture_transaction ''ws_CO_SUB'' ''subscription'' ''pending'' 0))
     ''ws_CO_SUB'' ''u1'' 1 5
   = (fixture_database
        ((fixture_transaction ''ws_CO_SUB'' ''subscription'' ''completed'' 0)
           \<lparr> mpesa_receipt_number := Some ''RCT2'' \<rparr>),
      TimedOut)
   \<and> success TimedOut = False
   \<and> credits_remaining fixture_subscription = 0
   \<and> subscription_end_date fixture_subscription = None"
  by (simp add: verify_defs fixture_defs verify_loop.simps)

subsection \<open>Timeout of the polling loop\<close>

lemma verify_loop_all_pending:
  assumes "\<forall>k. a \<le> k \<and> k < m \<longrightarrow>
             (\<exists>response. query_stk_push mp (polls k) cid = Inr response
                \<and> result_code_of response \<noteq> ''0''
                \<and> result_code_of response \<notin> set [''1032'', ''1037'', ''1''])"
  shows "verify_loop mp polls clock store tx cid uid m d a db = (db, TimedOut)"
  using assms
proof (induction a db rule: attempts_induct [where m = m])
  case (1 a db)
  show ?case
  proof (cases "a < m")
    case False
    then show ?thesis by (simp add: verify_loop_exit)
  next
    case True
    with "1.prems" obtain response where r: "query_stk_push mp (polls a) cid = Inr response"
      "result_code_of response \<noteq> ''0''"
      "result_code_of response \<notin> set [''1032'', ''1037'', ''1'']"
      by (metis order_refl)
    have "verify_loop mp polls clock store tx cid uid m d (a + 1) db = (db, TimedOut)"
      using "1.IH" [OF True] "1.prems" by simp
    with verify_loop_pending [where polls = polls and a = a, OF True r] show ?thesis
      by simp
  qed
qed

text \<open>
  C4. When every poll up to \<^verbatim>\<open>max_attempts\<close> answers with a code that is neither
  0 nor one of 1032, 1037, 1, the call returns the timeout failure and the store it was
  given: the transaction is still the same pending row.
\<close>

theorem verify_timeout_leaves_pending:
  assumes "get_payment_transaction_by_checkout_id db cid = Some t"
    and "payment_status t = ''pending''"
    and "\<forall>k. 0 \<le> k \<and> k < m \<longrightarrow>
           (\<exists>response. query_stk_push mp (polls k) cid = Inr response
              \<and> result_code_of response \<noteq> ''0''
              \<and> result_code_of response \<notin> set [''1032'', ''1037'', ''1''])"
  shows "verify_and_process_payment mp polls clock store db cid uid m d = (db, TimedOut)
         \<and> success TimedOut = False
         \<and> message TimedOut = Some
              ''Payment verification timed out. Please contact support if amount was deducted.''
         \<and> get_payment_transaction_by_checkout_id
               (fst (verify_and_process_payment mp polls clock store db cid uid m d)) cid = Some t"
proof -
  have "verify_loop mp polls clock store t cid uid m d 0 db = (db, TimedOut)"
    using assms(3) by (rule verify_loop_all_pending)
  with assms(1,2) have "verify_and_process_payment mp polls clock store db cid uid m d = (db, TimedOut)"
    by (simp add: verify_and_process_payment_def)
  with assms(1) show ?thesis by simp
qed

theorem verify_timeout_leaves_pending_witness:
  "verify_and_process_payment fixture_handler (every_poll (reply ''4999'' None))
     (steady_clock 0) reliable_store
     (fixture_database (fixture_transaction ''ws_CO_1'' ''credit_purchase'' ''pending'' 10))
     ''ws_CO_1'' ''u1'' 6 5
   = (fixture_database (fixture_transaction ''ws_CO_1'' ''credit_purchase'' ''pending'' 10), TimedOut)
   \<and> get_payment_transaction_by_checkout_id
        (fst (verify_and_process_payment fixture_handler (every_poll (reply ''4999'' None))
     (steady_clock 0) reliable_store
          (fixture_database (fixture_transaction ''ws_CO_1'' ''credit_purchase'' ''pending'' 10))
          ''ws_CO_1'' ''u1'' 6 5)) ''ws_CO_1''
      = Some (fixture_transaction ''ws_CO_1'' ''credit_purchase'' ''pending'' 10)"
proof -
  let ?t = "fixture_transaction ''ws_CO_1'' ''credit_purchase'' ''pending'' 10"
  have 1: "get_payment_transaction_by_checkout_id (fixture_database ?t) ''ws_CO_1'' = Some ?t"
    by (simp add: get_payment_transaction_by_checkout_id_def fixture_defs)
  have 2: "payment_status ?t = ''pending''"
    by (simp add: fixture_defs)
  have 3: "\<forall>k. 0 \<le> k \<and> k < 6 \<longrightarrow>
           (\<exists>response. query_stk_push fixture_handler (every_poll (reply ''4999'' None) k) ''ws_CO_1''
                = Inr response
              \<and> result_code_of response \<noteq> ''0''
              \<and> result_code_of response \<notin> set [''1032'', ''1037'', ''1''])"
    by (simp add: query_stk_push_def not_value_def result_code_of_def fixture_defs)
  from verify_timeout_leaves_pending [where polls = "every_poll (reply ''4999'' None)"
      and clock = "steady_clock 0" and store = reliable_store and uid = "''u1''" and d = 5,
      OF 1 2 3]
  show ?thesis
    by blast
qed

subsection \<open>Confirmed payments without an effect\<close>

lemma process_payment_falls_through:
  assumes "(transaction_type t = ''organization_subscription''
             \<and> \<not> truthy (dict_get_none (organization_id (tx_metadata t))))
           \<or> transaction_type t \<notin> set [''credit_purchase'', ''subscription'',
                                        ''organization_subscription'']"
  shows "process_payment db l now t uid = FellThrough db"
  using assms
  by (auto simp: process_payment_def Let_def truthy_def split: option.splits)

lemma verify_loop_all_confirmed:
  assumes fell: "\<And>db l now. process_payment db l now tx uid = FellThrough db"
    and polls: "\<forall>k. a \<le> k \<and> k < m \<longrightarrow>
             (\<exists>response. query_stk_push mp (polls k) cid = Inr response
                \<and> result_code_of response = ''0'')"
  shows "snd (verify_loop mp polls clock store tx cid uid m d a db) = TimedOut
         \<and> (((\<exists>k. a \<le> k \<and> k < m \<and> status_write_lands (store k))
              \<or> (\<forall>t \<in> set (payment_transactions db).
                 checkout_request_id t = Some cid \<longrightarrow> payment_status t = ''completed''))
            \<longrightarrow> (\<forall>t \<in> set (payment_transactions
                               (fst (verify_loop mp polls clock store tx cid uid m d a db))).
                 checkout_request_id t = Some cid \<longrightarrow> payment_status t = ''completed''))"
  using polls
proof (induction a db rule: attempts_induct [where m = m])
  case (1 a db)
  show ?case
  proof (cases "a < m")
    case False
    then show ?thesis by (auto simp: verify_loop_exit)
  next
    case True
    with "1.prems" obtain response where r: "query_stk_push mp (polls a) cid = Inr response"
      "result_code_of response = ''0''"
      by (metis order_refl)
    define db1 where "db1 = update_payment_status db (status_write_lands (store a)) cid
         ''completed'' (Some (case MpesaReceiptNumber response of None \<Rightarrow> [] | Some r \<Rightarrow> r))"
    have step: "verify_loop mp polls clock store tx cid uid m d a db
                = verify_loop mp polls clock store tx cid uid m d (a + 1) db1"
      using verify_loop_confirmed [where polls = polls and a = a and clock = clock
            and store = store and tx = tx and uid = uid and d = d and db = db, OF True r]
      by (simp add: fell db1_def)
    have next_polls: "\<forall>k. a + 1 \<le> k \<and> k < m \<longrightarrow>
             (\<exists>response. query_stk_push mp (polls k) cid = Inr response
                \<and> result_code_of response = ''0'')"
      using "1.prems" by simp
    note ih = "1.IH" [OF True next_polls, of db1]
    have lands: "\<forall>t \<in> set (payment_transactions db1).
                 checkout_request_id t = Some cid \<longrightarrow> payment_status t = ''completed''"
      if "status_write_lands (store a)"
      unfolding db1_def using that update_payment_status_marks by auto
    have keeps: "\<forall>t \<in> set (payment_transactions db1).
                 checkout_request_id t = Some cid \<longrightarrow> payment_status t = ''completed''"
      if "\<forall>t \<in> set (payment_transactions db).
                 checkout_request_id t = Some cid \<longrightarrow> payment_status t = ''completed''"
      unfolding db1_def using that update_payment_status_keeps by blast
    have later: "(\<exists>k. a + 1 \<le> k \<and> k < m \<and> status_write_lands (store k))
                 \<or> status_write_lands (store a)"
      if "\<exists>k. a \<le> k \<and> k < m \<and> status_write_lands (store k)"
    proof -
      from that obtain k where k: "a \<le> k" "k < m" "status_write_lands (store k)" by blast
      show ?thesis
      proof (cases "k = a")
        case True
        with k show ?thesis by simp
      next
        case False
        with k have "a + 1 \<le> k" by simp
        with k show ?thesis by blast
      qed
    qed
    from ih lands keeps later show ?thesis
      unfolding step by blast
  qed
qed

lemma verify_loop_all_dropped:
  assumes fell: "\<And>db l now. process_payment db l now tx uid = FellThrough db"
    and polls: "\<forall>k. a \<le> k \<and> k < m \<longrightarrow>
             (\<exists>response. query_stk_push mp (polls k) cid = Inr response
                \<and> result_code_of response = ''0'')"
    and dropped: "\<forall>k. a \<le> k \<and> k < m \<longrightarrow> \<not> status_write_lands (store k)"
  shows "verify_loop mp polls clock store tx cid uid m d a db = (db, TimedOut)"
  using polls dropped
proof (induction a db rule: attempts_induct [where m = m])
  case (1 a db)
  show ?case
  proof (cases "a < m")
    case False
    then show ?thesis by (simp add: verify_loop_exit)
  next
    case True
    with "1.prems" obtain response where r: "query_stk_push mp (polls a) cid = Inr response"
      "result_code_of response = ''0''"
      by (metis order_refl)
    from True "1.prems"(2) have "\<not> status_write_lands (store a)" by simp
    then have step: "verify_loop mp polls clock store tx cid uid m d a db
                = verify_loop mp polls clock store tx cid uid m d (a + 1) db"
      using verify_loop_confirmed [where polls = polls and a = a and clock = clock
            and store = store and tx = tx and uid = uid and d = d and db = db, OF True r]
      by (simp add: fell update_payment_status_dropped)
    have "verify_loop mp polls clock store tx cid uid m d (a + 1) db = (db, TimedOut)"
      using "1.IH" [OF True] "1.prems" by simp
    with step show ?thesis by simp
  qed
qed

text \<open>
  C5. For an \<open>organization_subscription\<close> whose metadata has no usable organization
  id, and for a transaction of none of the three known types, result code 0 issues the
  write of \<open>completed\<close> and returns nothing. If all polls answer 0 the caller gets the
  timeout failure; the row then reads \<open>completed\<close> as soon as one of the writes
  reached the store, and the store is as before if none did. If the first poll answers
  0 and the second a terminal failure code, the caller gets the failure and the write
  of \<open>failed\<close> follows the write of \<open>completed\<close>: the row reads \<open>failed\<close> when that
  write reaches the store.
\<close>

theorem confirmed_without_effect_times_out:
  assumes "get_payment_transaction_by_checkout_id db cid = Some t"
    and "payment_status t \<noteq> ''completed''"
    and "(transaction_type t = ''organization_subscription''
             \<and> \<not> truthy (dict_get_none (organization_id (tx_metadata t))))
           \<or> transaction_type t \<notin> set [''credit_purchase'', ''subscription'',
                                        ''organization_subscription'']"
  shows "(0 < m \<and> (\<forall>k. 0 \<le> k \<and> k < m \<longrightarrow>
             (\<exists>response. query_stk_push mp (polls k) cid = Inr response
                \<and> result_code_of response = ''0''))
          \<longrightarrow> snd (verify_and_process_payment mp polls clock store db cid uid m d) = TimedOut
              \<and> ((\<exists>k. 0 \<le> k \<and> k < m \<and> status_write_lands (store k)) \<longrightarrow>
                   (\<exists>t'. get_payment_transaction_by_checkout_id
                          (fst (verify_and_process_payment mp polls clock store db cid uid m d))
                          cid = Some t' \<and> payment_status t' = ''completed''))
              \<and> ((\<forall>k. 0 \<le> k \<and> k < m \<longrightarrow> \<not> status_write_lands (store k)) \<longrightarrow>
                   fst (verify_and_process_payment mp polls clock store db cid uid m d) = db))
       \<and> (1 < m
            \<and> (\<exists>response. query_stk_push mp (polls 0) cid = Inr response
                  \<and> result_code_of response = ''0'')
            \<and> (\<exists>response. query_stk_push mp (polls 1) cid = Inr response
                  \<and> result_code_of response \<in> set [''1032'', ''1037'', ''1''])
          \<longrightarrow> snd (verify_and_process_payment mp polls clock store db cid uid m d)
                = PaymentFailed
              \<and> (status_write_lands (store 1) \<longrightarrow>
                   (\<exists>t'. get_payment_transaction_by_checkout_id
                          (fst (verify_and_process_payment mp polls clock store db cid uid m d))
                          cid = Some t' \<and> payment_status t' = ''failed'')))"
proof -
  let ?run = "verify_and_process_payment mp polls clock store db cid uid m d"
  let ?loop = "verify_loop mp polls clock store t cid uid m d 0 db"
  have run: "?run = ?loop"
    using assms(1,2) by (simp add: verify_and_process_payment_def)
  have fell: "\<And>db l now. process_payment db l now t uid = FellThrough db"
    using assms(3) by (rule process_payment_falls_through)
  have ids: "map checkout_request_id (payment_transactions (fst ?loop))
             = map checkout_request_id (payment_transactions db)"
    by (rule verify_loop_ids [of mp polls clock store t cid uid m d 0 db _ "snd ?loop"]) simp
  from lookup_by_ids [OF ids assms(1)]
  obtain t' where t': "get_payment_transaction_by_checkout_id (fst ?loop) cid = Some t'"
    "t' \<in> set (payment_transactions (fst ?loop))" "checkout_request_id t' = Some cid"
    by blast
  have first: "snd ?loop = TimedOut
               \<and> ((\<exists>k. 0 \<le> k \<and> k < m \<and> status_write_lands (store k))
                    \<longrightarrow> payment_status t' = ''completed'')
               \<and> ((\<forall>k. 0 \<le> k \<and> k < m \<longrightarrow> \<not> status_write_lands (store k))
                    \<longrightarrow> fst ?loop = db)"
    if p: "\<forall>k. 0 \<le> k \<and> k < m \<longrightarrow>
             (\<exists>response. query_stk_push mp (polls k) cid = Inr response
                \<and> result_code_of response = ''0'')"
  proof (intro conjI impI)
    note all = verify_loop_all_confirmed [where tx = t and uid = uid and a = 0 and m = m
        and mp = mp and polls = polls and cid = cid and clock = clock and store = store
        and d = d and db = db, OF fell p]
    from all show "snd ?loop = TimedOut" by simp
    assume "\<exists>k. 0 \<le> k \<and> k < m \<and> status_write_lands (store k)"
    with all t'(2,3) show "payment_status t' = ''completed''" by blast
  next
    assume "\<forall>k. 0 \<le> k \<and> k < m \<longrightarrow> \<not> status_write_lands (store k)"
    with verify_loop_all_dropped [where tx = t and uid = uid and a = 0 and m = m
        and mp = mp and polls = polls and cid = cid and clock = clock and store = store
        and d = d and db = db, OF fell p]
    show "fst ?loop = db" by simp
  qed
  have second: "snd ?loop = PaymentFailed
                \<and> (status_write_lands (store 1) \<longrightarrow> payment_status t' = ''failed'')"
    if m: "1 < m"
      and p0: "\<exists>response. query_stk_push mp (polls 0) cid = Inr response
                  \<and> result_code_of response = ''0''"
      and p1: "\<exists>response. query_stk_push mp (polls 1) cid = Inr response
                  \<and> result_code_of response \<in> set [''1032'', ''1037'', ''1'']"
  proof -
    from p0 obtain r0 where r0: "query_stk_push mp (polls 0) cid = Inr r0"
      "result_code_of r0 = ''0''" by blast
    from p1 obtain r1 where r1: "query_stk_push mp (polls 1) cid = Inr r1"
      "result_code_of r1 \<in> set [''1032'', ''1037'', ''1'']" by blast
    define db1 where "db1 = update_payment_status db (status_write_lands (store 0)) cid
         ''completed'' (Some (case MpesaReceiptNumber r0 of None \<Rightarrow> [] | Some r \<Rightarrow> r))"
    from m have m0: "(0::int) < m" by simp
    have s0: "?loop = verify_loop mp polls clock store t cid uid m d 1 db1"
      using verify_loop_confirmed [where polls = polls and a = 0 and clock = clock
            and store = store and tx = t and uid = uid and d = d and db = db, OF m0 r0]
      by (simp add: fell db1_def)
    have s1: "verify_loop mp polls clock store t cid uid m d 1 db1
              = (update_payment_status db1 (status_write_lands (store 1)) cid ''failed'' None,
                 PaymentFailed)"
      by (rule verify_loop_terminal [where polls = polls and a = 1, OF m r1])
    from s0 s1 t'(2,3) update_payment_status_marks show ?thesis
      by auto
  qed
  from first second t'(1) show ?thesis
    unfolding run by blast
qed

theorem confirmed_without_effect_times_out_witness:
  "snd (verify_and_process_payment fixture_handler (every_poll (reply ''0'' (Some ''PAY12345'')))
          (steady_clock 1000) reliable_store
          (fixture_database (fixture_org_transaction ''pending'' Null))
          ''ws_CO_ORG'' ''u1'' 6 5) = TimedOut
   \<and> (\<exists>t'. get_payment_transaction_by_checkout_id
              (fst (verify_and_process_payment fixture_handler
                 (every_poll (reply ''0'' (Some ''PAY12345''))) (steady_clock 1000)
                 reliable_store
                 (fixture_database (fixture_org_transaction ''pending'' Null))
                 ''ws_CO_ORG'' ''u1'' 6 5)) ''ws_CO_ORG'' = Some t'
            \<and> payment_status t' = ''completed'')
   \<and> snd (verify_and_process_payment fixture_handler
          (\<lambda>k. if k = 0 then reply ''0'' (Some ''PAY12345'') else reply ''1032'' None)
          (steady_clock 1000) reliable_store
          (fixture_database (fixture_org_transaction ''pending'' Null))
          ''ws_CO_ORG'' ''u1'' 6 5) = PaymentFailed
   \<and> (\<exists>t'. get_payment_transaction_by_checkout_id
              (fst (verify_and_process_payment fixture_handler
                 (\<lambda>k. if k = 0 then reply ''0'' (Some ''PAY12345'') else reply ''1032'' None)
                 (steady_clock 1000) reliable_store
                 (fixture_database (fixture_org_transaction ''pending'' Null))
                 ''ws_CO_ORG'' ''u1'' 6 5)) ''ws_CO_ORG'' = Some t'
            \<and> payment_status t' = ''failed'')"
proof -
  let ?t = "fixture_org_transaction ''pending'' Null"
  let ?p1 = "every_poll (reply ''0'' (Some ''PAY12345''))"
  let ?p2 = "\<lambda>k::int. if k = 0 then reply ''0'' (Some ''PAY12345'') else reply ''1032'' None"
  have 1: "get_payment_transaction_by_checkout_id (fixture_database ?t) ''ws_CO_ORG'' = Some ?t"
    by (simp add: get_payment_transaction_by_checkout_id_def fixture_defs)
  have 2: "payment_status ?t \<noteq> ''completed''"
    by (simp add: fixture_defs)
  have 3: "(transaction_type ?t = ''organization_subscription''
             \<and> \<not> truthy (dict_get_none (organization_id (tx_metadata ?t))))
           \<or> transaction_type ?t \<notin> set [''credit_purchase'', ''subscription'',
                                        ''organization_subscription'']"
    by (simp add: fixture_defs truthy_def dict_get_none_def)
  have 4: "(0::int) < 6 \<and> (\<forall>k. 0 \<le> k \<and> k < 6 \<longrightarrow>
             (\<exists>response. query_stk_push fixture_handler (?p1 k) ''ws_CO_ORG'' = Inr response
                \<and> result_code_of response = ''0''))"
    by (simp add: query_stk_push_def not_value_def result_code_of_def fixture_defs)
  have 5: "(1::int) < 6
            \<and> (\<exists>response. query_stk_push fixture_handler (?p2 0) ''ws_CO_ORG'' = Inr response
                  \<and> result_code_of response = ''0'')
            \<and> (\<exists>response. query_stk_push fixture_handler (?p2 1) ''ws_CO_ORG'' = Inr response
                  \<and> result_code_of response \<in> set [''1032'', ''1037'', ''1''])"
    by (simp add: query_stk_push_def not_value_def result_code_of_def fixture_defs)
  have 6: "\<exists>k. 0 \<le> k \<and> k < 6 \<and> status_write_lands (reliable_store k)"
    by (rule exI [of _ 0]) (simp add: reliable_store_def)
  have 7: "status_write_lands (reliable_store 1)"
    by (simp add: reliable_store_def)
  note a = confirmed_without_effect_times_out [where polls = ?p1
      and m = 6 and mp = fixture_handler and clock = "steady_clock 1000"
      and store = reliable_store and uid = "''u1''" and d = 5,
      OF 1 2 3, THEN conjunct1, THEN mp, OF 4]
  note b = confirmed_without_effect_times_out [where polls = ?p2
      and m = 6 and mp = fixture_handler and clock = "steady_clock 1000"
      and store = reliable_store and uid = "''u1''" and d = 5,
      OF 1 2 3, THEN conjunct2, THEN mp, OF 5]
  show ?thesis
    by (intro conjI a [THEN conjunct1] a [THEN conjunct2, THEN conjunct1, THEN mp, OF 6]
        b [THEN conjunct1] b [THEN conjunct2, THEN mp, OF 7])
qed

subsection \<open>Status writes\<close>

lemma status_step_update:
  assumes "list_all2 (status_step cid) xs (payment_transactions x)"
    and "st = ''completed'' \<or> st = ''failed''"
  shows "list_all2 (status_step cid) xs
           (payment_transactions (update_payment_status x l cid st rn))"
proof (cases l)
  case False
  with assms(1) show ?thesis by (simp add: update_payment_status_dropped)
next
  case True
  let ?f = "\<lambda>t. if checkout_request_id t = Some cid
                then t \<lparr> payment_status := st,
                         mpesa_receipt_number :=
                           (if not_value rn then mpesa_receipt_number t else rn) \<rparr>
                else t"
  have "status_step cid a (?f b)" if "status_step cid a b" for a b
    using that assms(2) by (auto simp: status_step_def)
  with assms(1) have "list_all2 (\<lambda>a b. status_step cid a (?f b)) xs (payment_transactions x)"
    by (rule list_all2_mono)
  with True show ?thesis
    by (simp add: update_payment_status_def list_all2_map2)
qed

lemma verify_loop_status_step:
  assumes "verify_loop mp polls clock store tx cid uid m d a db = (db', r)"
  shows "list_all2 (status_step cid) (payment_transactions db) (payment_transactions db')"
proof -
  let ?I = "\<lambda>x. list_all2 (status_step cid) (payment_transactions db) (payment_transactions x)"
  have base: "?I db"
    by (simp add: list_all2_same status_step_def)
  have upd: "?I (update_payment_status x l cid ''completed'' (Some rn))" if "?I x" for x l rn
    using that by (rule status_step_update) simp
  show ?thesis
  proof (rule verify_loop_rule [where I = ?I and Q = "\<lambda>x r. ?I x", OF _ _ _ _ _ base assms])
    fix x :: database and k assume "?I x"
    then show "?I (update_payment_status x (status_write_lands (store k)) cid ''failed'' None)"
      by (rule status_step_update) simp
  next
    fix x :: database and k rn db2 r
    assume i: "?I x" and p: "process_payment
             (update_payment_status x (status_write_lands (store k)) cid ''completed'' (Some rn))
             (subscription_insert_lands (store k)) (clock k) tx uid = Returned db2 r"
    from upd [OF i] process_payment_transactions(1) [OF p] show "?I db2" by simp
  next
    fix x :: database and k rn db2
    assume i: "?I x" and p: "process_payment
             (update_payment_status x (status_write_lands (store k)) cid ''completed'' (Some rn))
             (subscription_insert_lands (store k)) (clock k) tx uid = Raised db2"
    from upd [OF i] process_payment_transactions(2) [OF p] show "?I db2" by simp
  next
    fix x :: database and k rn db2
    assume i: "?I x" and p: "process_payment
             (update_payment_status x (status_write_lands (store k)) cid ''completed'' (Some rn))
             (subscription_insert_lands (store k)) (clock k) tx uid = FellThrough db2"
    from upd [OF i] process_payment_transactions(3) [OF p] show "?I db2" by simp
  qed simp
qed

text \<open>
  The status write is an update by checkout id alone. It overwrites \<open>completed\<close> with
  \<open>failed\<close>, and a row that reads \<open>failed\<close> is polled again and marked
  \<open>completed\<close> when the gateway then answers 0.
\<close>

theorem update_payment_status_unconditional:
  "map payment_status (payment_transactions
      (update_payment_status
         (fixture_database (fixture_org_transaction ''completed'' (Val ''org_456''))) True
         ''ws_CO_ORG'' ''failed'' None)) = [''failed'']
   \<and> map payment_status (payment_transactions
      (fixture_database (fixture_org_transaction ''failed'' (Val ''org_456'')))) = [''failed'']
   \<and> map payment_status (payment_transactions
      (fst (verify_and_process_payment fixture_handler
              (every_poll (reply ''0'' (Some ''PAY12345''))) (steady_clock 1000) reliable_store
              (fixture_database (fixture_org_transaction ''failed'' (Val ''org_456'')))
              ''ws_CO_ORG'' ''u1'' 1 5))) = [''completed'']"
  by (simp add: verify_defs fixture_defs verify_loop.simps)

text \<open>
  C2, as the code has it. A call of \<^verbatim>\<open>verify_and_process_payment\<close> leaves every
  stored row that reads \<open>completed\<close> as it is, writes no status other than
  \<open>completed\<close> and \<open>failed\<close>, and so never takes a row back to \<open>pending\<close>.
\<close>

theorem verify_never_reopens:
  assumes "verify_and_process_payment mp polls clock store db cid uid m d = (db', r)"
  shows "list_all2
           (\<lambda>t t'. (payment_status t = ''completed'' \<longrightarrow> t' = t)
                  \<and> (payment_status t \<noteq> ''pending'' \<longrightarrow> payment_status t' \<noteq> ''pending'')
                  \<and> (payment_status t' = payment_status t \<or> payment_status t' = ''completed''
                       \<or> payment_status t' = ''failed''))
           (payment_transactions db) (payment_transactions db')"
proof (cases "get_payment_transaction_by_checkout_id db cid")
  case None
  with assms have "db' = db" by (simp add: verify_and_process_payment_def)
  then show ?thesis by (simp add: list_all2_same)
next
  case (Some t)
  show ?thesis
  proof (cases "payment_status t = ''completed''")
    case True
    with assms Some have "db' = db" by (simp add: verify_and_process_payment_def)
    then show ?thesis by (simp add: list_all2_same)
  next
    case False
    with assms Some have loop: "verify_loop mp polls clock store t cid uid m d 0 db = (db', r)"
      by (simp add: verify_and_process_payment_def)
    have "list_all2 (status_step cid) (payment_transactions db) (payment_transactions db')"
      using loop by (rule verify_loop_status_step)
    then show ?thesis
    proof (rule list.rel_mono_strong)
      fix u u'
      assume u: "u \<in> set (payment_transactions db)" and s: "status_step cid u u'"
      have "u' = u" if "payment_status u = ''completed''"
      proof -
        from that False have "u \<noteq> t" by auto
        with lookup_unique [OF Some u] have "checkout_request_id u \<noteq> Some cid" by blast
        with s show ?thesis by (simp add: status_step_def)
      qed
      with s show "(payment_status u = ''completed'' \<longrightarrow> u' = u)
                  \<and> (payment_status u \<noteq> ''pending'' \<longrightarrow> payment_status u' \<noteq> ''pending'')
                  \<and> (payment_status u' = payment_status u \<or> payment_status u' = ''completed''
                       \<or> payment_status u' = ''failed'')"
        by (auto simp: status_step_def)
    qed
  qed
qed

theorem verify_never_reopens_witness:
  "list_all2
     (\<lambda>t t'. (payment_status t = ''completed'' \<longrightarrow> t' = t)
            \<and> (payment_status t \<noteq> ''pending'' \<longrightarrow> payment_status t' \<noteq> ''pending'')
            \<and> (payment_status t' = payment_status t \<or> payment_status t' = ''completed''
                 \<or> payment_status t' = ''failed''))
     (payment_transactions (fixture_database (fixture_org_transaction ''failed'' (Val ''org_456''))))
     (payment_transactions
        (fst (verify_and_process_payment fixture_handler
                (every_poll (reply ''0'' (Some ''PAY12345''))) (steady_clock 1000)
                reliable_store
                (fixture_database (fixture_org_transaction ''failed'' (Val ''org_456'')))
                ''ws_CO_ORG'' ''u1'' 1 5)))"
  by (rule verify_never_reopens [where r = "snd (verify_and_process_payment fixture_handler
                (every_poll (reply ''0'' (Some ''PAY12345''))) (steady_clock 1000)
                reliable_store
                (fixture_database (fixture_org_transaction ''failed'' (Val ''org_456'')))
                ''ws_CO_ORG'' ''u1'' 1 5)"]) simp

subsection \<open>Construction of the gateway client\<close>

lemmas init_defs = MpesaHandler_init_def missing_vars_def required_vars_def not_value_def
  get_mpesa_access_token_def fixture_env_def fixture_token_def

text \<open>
  C10, evaluated. Without any of the eight variables that \<^verbatim>\<open>required_vars\<close>
  lists the constructor raises \<^verbatim>\<open>ValueError\<close>. \<^verbatim>\<open>SAF_STK_PUSH_QUERY_API\<close> is
  read but not listed: without it the constructor succeeds, and the first status query
  raises.
\<close>

theorem init_accepts_missing_query_url:
  "fixture_env ''SAF_STK_PUSH_QUERY_API'' = None
   \<and> MpesaHandler_init fixture_env fixture_token
       = Inr (fixture_handler \<lparr> query_status_url := None \<rparr>)
   \<and> query_stk_push (fixture_handler \<lparr> query_status_url := None \<rparr>)
         (reply ''0'' (Some ''RCT1'')) ''ws_CO_1'' = Inl ValueError
   \<and> list_all (\<lambda>name. MpesaHandler_init (fixture_env (name := None)) fixture_token
                       = Inl ValueError)
        [''SAF_SHORTCODE'', ''SAF_TILL_NUMBER'', ''SAF_CONSUMER_KEY'', ''SAF_CONSUMER_SECRET'',
         ''SAF_ACCESS_TOKEN_API'', ''SAF_PASS_KEY'', ''SAF_STK_PUSH_API'', ''CALLBACK_URL'']"
  by (simp add: init_defs fixture_handler_def query_stk_push_def)

subsection \<open>Transport errors\<close>

lemma initiate_stk_push_structured:
  "initiate_stk_push mp gateway generated phone amt ref = stk_validation_error
   \<or> initiate_stk_push mp gateway generated phone amt ref = stk_error
   \<or> (\<exists>req. gateway req = HttpBody (initiate_stk_push mp gateway generated phone amt ref))"
  by (auto simp: initiate_stk_push_def Let_def split: sum.splits exn.splits http_outcome.splits)

text \<open>
  A transport error during a status query comes out of \<^verbatim>\<open>query_stk_push\<close> as an
  exception, not as a response.
\<close>

theorem query_stk_push_reraises:
  "query_stk_push fixture_handler unreachable ''ws_CO_1'' = Inl OtherException"
  by (simp add: query_stk_push_def not_value_def fixture_handler_def unreachable_def)

text \<open>
  C6, as the code has it. \<^verbatim>\<open>initiate_stk_push\<close> turns every failure of the
  exchange into a response with code 1 and an error message. \<^verbatim>\<open>query_stk_push\<close>
  raises instead; the polling loop catches the exception, counts the attempt and goes
  on exactly as after a pending answer, and only a terminal result code ends the loop
  at once with a failure.
\<close>

theorem transport_errors_are_retried:
  "((\<forall>req. \<exists>e. gateway req = HttpRaised e) \<longrightarrow>
      ResponseCode (initiate_stk_push mp gateway generated phone amt ref) = Some ''1''
      \<and> errorMessage (initiate_stk_push mp gateway generated phone amt ref) \<noteq> None)
   \<and> (status_gateway cid = HttpRaised e \<longrightarrow>
        (\<exists>e'. query_stk_push mp status_gateway cid = Inl e'))
   \<and> (a < m \<and> query_stk_push mp (polls a) cid = Inl e \<longrightarrow>
        verify_loop mp polls clock store tx cid uid m d a db
        = verify_loop mp polls clock store tx cid uid m d (a + 1) db)
   \<and> (a < m \<and> query_stk_push mp (polls a) cid = Inr response
        \<and> result_code_of response \<in> set [''1032'', ''1037'', ''1''] \<longrightarrow>
        verify_loop mp polls clock store tx cid uid m d a db
        = (update_payment_status db (status_write_lands (store a)) cid ''failed'' None,
           PaymentFailed))"
proof (intro conjI impI)
  assume g: "\<forall>req. \<exists>e. gateway req = HttpRaised e"
  have "initiate_stk_push mp gateway generated phone amt ref = stk_validation_error
        \<or> initiate_stk_push mp gateway generated phone amt ref = stk_error"
    using initiate_stk_push_structured [of mp gateway generated phone amt ref] g
    by (metis http_outcome.distinct(1))
  then show "ResponseCode (initiate_stk_push mp gateway generated phone amt ref) = Some ''1''"
    and "errorMessage (initiate_stk_push mp gateway generated phone amt ref) \<noteq> None"
    by (auto simp: stk_validation_error_def stk_error_def)
next
  assume "status_gateway cid = HttpRaised e"
  then show "\<exists>e'. query_stk_push mp status_gateway cid = Inl e'"
    by (simp add: query_stk_push_def)
next
  assume "a < m \<and> query_stk_push mp (polls a) cid = Inl e"
  then show "verify_loop mp polls clock store tx cid uid m d a db
             = verify_loop mp polls clock store tx cid uid m d (a + 1) db"
    by (simp add: verify_loop_raised)
next
  assume "a < m \<and> query_stk_push mp (polls a) cid = Inr response
          \<and> result_code_of response \<in> set [''1032'', ''1037'', ''1'']"
  then show "verify_loop mp polls clock store tx cid uid m d a db
             = (update_payment_status db (status_write_lands (store a)) cid ''failed'' None,
           PaymentFailed)"
    using verify_loop_terminal [where polls = polls and a = a and store = store] by blast
qed

theorem transport_errors_are_retried_witness:
  "ResponseCode (initiate_stk_push fixture_handler (\<lambda>req. HttpRaised OtherException) ''REF''
                   ''0712345678'' 100 None) = Some ''1''
   \<and> errorMessage (initiate_stk_push fixture_handler (\<lambda>req. HttpRaised OtherException) ''REF''
                   ''0712345678'' 100 None) \<noteq> None
   \<and> (\<exists>e'. query_stk_push fixture_handler (\<lambda>cid. HttpRaised OtherException) ''ws_CO_ORG''
              = Inl e')
   \<and> verify_loop fixture_handler
        (\<lambda>k. if k = 0 then (\<lambda>cid. HttpRaised OtherException) else reply ''0'' (Some ''PAY12345''))
        (steady_clock 1000) reliable_store (fixture_org_transaction ''pending'' (Val ''org_456'')) ''ws_CO_ORG'' ''u1'' 2 5 0
        (fixture_database (fixture_org_transaction ''pending'' (Val ''org_456'')))
      = verify_loop fixture_handler
        (\<lambda>k. if k = 0 then (\<lambda>cid. HttpRaised OtherException) else reply ''0'' (Some ''PAY12345''))
        (steady_clock 1000) reliable_store (fixture_org_transaction ''pending'' (Val ''org_456'')) ''ws_CO_ORG'' ''u1'' 2 5
        (0 + 1)
        (fixture_database (fixture_org_transaction ''pending'' (Val ''org_456'')))
   \<and> verify_loop fixture_handler (\<lambda>k. reply ''1032'' None)
        (steady_clock 1000) reliable_store (fixture_org_transaction ''pending'' (Val ''org_456'')) ''ws_CO_ORG'' ''u1'' 2 5 0
        (fixture_database (fixture_org_transaction ''pending'' (Val ''org_456'')))
      = (update_payment_status
           (fixture_database (fixture_org_transaction ''pending'' (Val ''org_456'')))
           (status_write_lands (reliable_store 0)) ''ws_CO_ORG'' ''failed'' None,
         PaymentFailed)"
proof -
  let ?raise = "\<lambda>cid::string. HttpRaised OtherException :: query_response http_outcome"
  let ?p = "\<lambda>k::int. if k = 0 then ?raise else reply ''0'' (Some ''PAY12345'')"
  let ?q = "\<lambda>k::int. reply ''1032'' None"
  let ?g = "\<lambda>req::stk_request. HttpRaised OtherException :: stk_response http_outcome"
  have 1: "\<forall>req. \<exists>e. ?g req = HttpRaised e" by simp
  have 2: "?raise ''ws_CO_ORG'' = HttpRaised OtherException" by simp
  have 3: "(0::int) < 2 \<and> query_stk_push fixture_handler (?p 0) ''ws_CO_ORG'' = Inl OtherException"
    by (simp add: query_stk_push_def not_value_def fixture_handler_def)
  have 4: "(0::int) < 2
           \<and> query_stk_push fixture_handler (?q 0) ''ws_CO_ORG''
              = Inr \<lparr> ResultCode = Val ''1032'', MpesaReceiptNumber = None \<rparr>
           \<and> result_code_of \<lparr> ResultCode = Val ''1032'', MpesaReceiptNumber = None \<rparr>
              \<in> set [''1032'', ''1037'', ''1'']"
    by (simp add: query_stk_push_def not_value_def fixture_handler_def reply_def result_code_of_def)
  note t = transport_errors_are_retried
  note a = t [where gateway = ?g, THEN conjunct1, THEN mp, OF 1]
  note b = t [where status_gateway = ?raise, THEN conjunct2, THEN conjunct1, THEN mp, OF 2]
  note c = t [where polls = ?p and a = 0 and m = 2, THEN conjunct2, THEN conjunct2,
      THEN conjunct1, THEN mp, OF 3]
  note d = t [where polls = ?q and a = 0 and m = 2, THEN conjunct2, THEN conjunct2,
      THEN conjunct2, THEN mp, OF 4]
  show ?thesis
    by (intro conjI a [THEN conjunct1] a [THEN conjunct2] b c d)
qed

subsection \<open>Organization purchases\<close>








subsection \<open>Session payment guard\<close>

lemma verify_payment_loop_first_poll:
  assumes "query_stk_push mp (polls 0) cid = Inr response" and "guard_result_code response = ''0''"
  shows "verify_payment_loop mp polls cid 5 d 0"
  using assms by (simp add: verify_payment_loop.simps [of _ _ _ _ _ 0])

text \<open>
  A payment recorded at time 0 and verified one minute later still allows the download
  at minute 31: the check of \<^verbatim>\<open>payment_verified\<close> comes before the check of the
  age.
\<close>

theorem verified_session_does_not_expire:
  "snd (handle_download_request fixture_handler (every_poll (reply ''4999'' None))
          (0 + minutes 31)
     (fst (handle_download_request fixture_handler (every_poll (reply ''0'' None))
             (0 + minutes 1)
        (session_update_payment_status fixture_session 0 ''ws_CO_1'' 100))))
   = True"
  by (simp add: handle_download_request_def session_update_payment_status_def minutes_def
      verify_payment_def verify_payment_loop.simps query_stk_push_def not_value_def
      guard_result_code_def fixture_handler_def reply_def fixture_session_def every_poll_def)

text \<open>
  C7, as the code has it. The download is allowed only if a payment status exists for
  the current document and either the session is already verified or the status is at
  most 30 minutes old and a live verification succeeds. A status recorded at
  \<open>created\<close> and not yet verified is refused 31 minutes later and can be accepted
  29 minutes later; a verified session is accepted whatever the clock reads.
\<close>

theorem download_guard:
  "(handle_download_request mp polls now s = (s', True) \<longrightarrow>
      (\<exists>ps doc. session_payment_status s = Some ps \<and> current_document_id s = Some doc
          \<and> doc \<noteq> [] \<and> document_id ps = Some doc
          \<and> (payment_verified s
               \<or> (now - timestamp ps \<le> minutes 30
                   \<and> verify_payment mp polls s (ps_checkout_request_id ps) doc 5 5))))
   \<and> (current_document_id s = Some doc \<and> doc \<noteq> [] \<longrightarrow>
        snd (handle_download_request mp polls (created + minutes 31)
               (session_update_payment_status s created cid amt)) = False)
   \<and> (current_document_id s = Some doc \<and> doc \<noteq> []
        \<and> query_stk_push mp (polls 0) cid = Inr response
        \<and> guard_result_code response = ''0'' \<longrightarrow>
        snd (handle_download_request mp polls (created + minutes 29)
               (session_update_payment_status s created cid amt)) = True)
   \<and> (payment_verified s \<and> session_payment_status s = Some ps
        \<and> current_document_id s = Some doc \<and> doc \<noteq> [] \<and> document_id ps = Some doc \<longrightarrow>
        handle_download_request mp polls now s = (s, True))"
proof (intro conjI impI)
  assume "handle_download_request mp polls now s = (s', True)"
  then show "\<exists>ps doc. session_payment_status s = Some ps \<and> current_document_id s = Some doc
          \<and> doc \<noteq> [] \<and> document_id ps = Some doc
          \<and> (payment_verified s
               \<or> (now - timestamp ps \<le> minutes 30
                   \<and> verify_payment mp polls s (ps_checkout_request_id ps) doc 5 5))"
    by (auto simp: handle_download_request_def Let_def verify_payment_def
        split: option.splits if_splits)
next
  assume "current_document_id s = Some doc \<and> doc \<noteq> []"
  then show "snd (handle_download_request mp polls (created + minutes 31)
               (session_update_payment_status s created cid amt)) = False"
    by (simp add: handle_download_request_def session_update_payment_status_def minutes_def)
next
  assume a: "current_document_id s = Some doc \<and> doc \<noteq> []
        \<and> query_stk_push mp (polls 0) cid = Inr response
        \<and> guard_result_code response = ''0''"
  then have "verify_payment_loop mp polls cid 5 5 0"
    using verify_payment_loop_first_poll by blast
  with a show "snd (handle_download_request mp polls (created + minutes 29)
               (session_update_payment_status s created cid amt)) = True"
    by (simp add: handle_download_request_def session_update_payment_status_def minutes_def
        verify_payment_def)
next
  assume "payment_verified s \<and> session_payment_status s = Some ps
        \<and> current_document_id s = Some doc \<and> doc \<noteq> [] \<and> document_id ps = Some doc"
  then show "handle_download_request mp polls now s = (s, True)"
    by (simp add: handle_download_request_def)
qed

theorem download_guard_witness:
  "(\<exists>ps doc. session_payment_status
                 (session_update_payment_status fixture_session 0 ''ws_CO_1'' 100) = Some ps
        \<and> current_document_id
                 (session_update_payment_status fixture_session 0 ''ws_CO_1'' 100) = Some doc
        \<and> doc \<noteq> [] \<and> document_id ps = Some doc
        \<and> (payment_verified (session_update_payment_status fixture_session 0 ''ws_CO_1'' 100)
             \<or> (minutes 29 - timestamp ps \<le> minutes 30
                 \<and> verify_payment fixture_handler (\<lambda>k. reply ''0'' None)
                       (session_update_payment_status fixture_session 0 ''ws_CO_1'' 100)
                       (ps_checkout_request_id ps) doc 5 5)))
   \<and> snd (handle_download_request fixture_handler (\<lambda>k. reply ''0'' None) (0 + minutes 31)
          (session_update_payment_status fixture_session 0 ''ws_CO_1'' 100)) = False
   \<and> snd (handle_download_request fixture_handler (\<lambda>k. reply ''0'' None) (0 + minutes 29)
          (session_update_payment_status fixture_session 0 ''ws_CO_1'' 100)) = True
   \<and> handle_download_request fixture_handler (\<lambda>k. reply ''4999'' None) (minutes 31)
        \<lparr> session_payment_status = Some fixture_status, payment_verified = True,
          current_document_id = Some ''doc_20260101120000_00ff'' \<rparr>
      = (\<lparr> session_payment_status = Some fixture_status, payment_verified = True,
           current_document_id = Some ''doc_20260101120000_00ff'' \<rparr>, True)"
proof -
  let ?s1 = "session_update_payment_status fixture_session 0 ''ws_CO_1'' 100"
  let ?ok = "\<lambda>k::int. reply ''0'' None"
  let ?s2 = "\<lparr> session_payment_status = Some fixture_status, payment_verified = True,
          current_document_id = Some ''doc_20260101120000_00ff'' \<rparr>"
  have 1: "handle_download_request fixture_handler ?ok (minutes 29) ?s1
           = (?s1 \<lparr> payment_verified := True \<rparr>, True)"
    by (simp add: handle_download_request_def session_update_payment_status_def minutes_def
      verify_payment_def verify_payment_loop.simps query_stk_push_def not_value_def
      guard_result_code_def fixture_handler_def reply_def fixture_session_def)
  have 2: "current_document_id fixture_session = Some ''doc_20260101120000_00ff''
           \<and> ''doc_20260101120000_00ff'' \<noteq> []"
    by (simp add: fixture_session_def)
  have 3: "current_document_id fixture_session = Some ''doc_20260101120000_00ff''
           \<and> ''doc_20260101120000_00ff'' \<noteq> []
           \<and> query_stk_push fixture_handler (?ok 0) ''ws_CO_1''
              = Inr \<lparr> ResultCode = Val ''0'', MpesaReceiptNumber = None \<rparr>
           \<and> guard_result_code \<lparr> ResultCode = Val ''0'', MpesaReceiptNumber = None \<rparr> = ''0''"
    by (simp add: fixture_session_def query_stk_push_def not_value_def fixture_handler_def
        reply_def guard_result_code_def)
  have 4: "payment_verified ?s2 \<and> session_payment_status ?s2 = Some fixture_status
        \<and> current_document_id ?s2 = Some ''doc_20260101120000_00ff''
        \<and> ''doc_20260101120000_00ff'' \<noteq> []
        \<and> document_id fixture_status = Some ''doc_20260101120000_00ff''"
    by (simp add: fixture_status_def)
  note g = download_guard
  note a = g [THEN conjunct1, THEN mp, OF 1]
  note b = g [THEN conjunct2, THEN conjunct1, THEN mp, OF 2]
  note c = g [THEN conjunct2, THEN conjunct2, THEN conjunct1, THEN mp, OF 3]
  note d = g [THEN conjunct2, THEN conjunct2, THEN conjunct2, THEN mp, OF 4]
  show ?thesis
    by (intro conjI a b c d)
qed

end
